theory Spec2Isabelle
  imports Complex_Main
begin

section \<open>Python values shared by the models\<close>

text \<open>
  A Python \<open>str\<close> is a sequence of Unicode code points and \<open>len\<close> counts code points,
  so a string is modelled as the list of its code points. ASCII literals are written
  through \<open>asc\<close>.
\<close>

type_synonym pystr = "nat list"

definition asc :: "string \<Rightarrow> pystr" where
  "asc s = map of_char s"

text \<open>
  A bound of a Python slice \<open>xs[a:b]\<close> on a sequence of length \<open>n\<close>: a negative bound
  counts from the end, and every bound is clamped into \<open>0..n\<close>.
\<close>

definition slice_bound :: "nat \<Rightarrow> int \<Rightarrow> nat" where
  "slice_bound n i = (if i < 0 then nat (max 0 (int n + i)) else min n (nat i))"

definition py_slice :: "'a list \<Rightarrow> int \<Rightarrow> int \<Rightarrow> 'a list" where
  "py_slice xs a b =
     (let lo = slice_bound (length xs) a; hi = slice_bound (length xs) b
      in take (hi - lo) (drop lo xs))"

section \<open>Chunker (\<open>rag.py\<close>, \<open>chunk_text\<close>)\<close>

text \<open>
  The \<open>while\<close> loop of \<open>chunk_text\<close>, with the loop variables \<open>start\<close> and \<open>chunks\<close> as
  arguments. The loop need not terminate (an overlap that is not smaller than the chunk
  size never advances), so the result is an option: \<open>None\<close> is a loop that runs forever.
\<close>

partial_function (option) chunk_loop ::
  "'a list \<Rightarrow> int \<Rightarrow> int \<Rightarrow> int \<Rightarrow> 'a list list \<Rightarrow> 'a list list option" where
  "chunk_loop text chunk_size overlap start chunks =
     (if start < int (length text) then
        (let stop = min (start + chunk_size) (int (length text));
             chunks' = chunks @ [py_slice text start stop]
         in if stop = int (length text) then Some chunks'
            else chunk_loop text chunk_size overlap (stop - overlap) chunks')
      else Some chunks)"

declare chunk_loop.simps [code]

definition chunk_text :: "'a list \<Rightarrow> int \<Rightarrow> int \<Rightarrow> 'a list list option" where
  "chunk_text text chunk_size overlap = chunk_loop text chunk_size overlap 0 []"

text \<open>
  What the specification says of the windows, as a predicate on their bounds
  \<open>(b, e)\<close> (the window is \<open>text[b:e]\<close>): the first window starts at \<open>a\<close>, every window
  is non-empty and at most \<open>s\<close> long, the next window starts \<open>ov\<close> characters before the
  end of the previous one, and the last window ends at \<open>L\<close>.
\<close>

fun window_chain :: "int \<Rightarrow> int \<Rightarrow> int \<Rightarrow> int \<Rightarrow> (int \<times> int) list \<Rightarrow> bool" where
  "window_chain s ov L a [] = False"
| "window_chain s ov L a [(b, e)] = (b = a \<and> 0 \<le> b \<and> b < e \<and> e - b \<le> s \<and> e = L)"
| "window_chain s ov L a ((b, e) # w # ws) =
     (b = a \<and> 0 \<le> b \<and> b < e \<and> e - b \<le> s \<and> e \<le> L
      \<and> window_chain s ov L (e - ov) (w # ws))"

section \<open>Values, exceptions and string operations\<close>

text \<open>
  Dynamically typed values (JSON bodies, metadata dictionaries). A dictionary is an
  association list; \<open>dict.get\<close> is \<open>map_of\<close>. A Python \<open>float\<close> is modelled by a real
  number: the models only compare, take maxima of and double such values; \<open>NaN\<close> and
  rounding are outside the model.
\<close>

datatype pyval = PNone | PBool bool | PInt int | PFloat real | PStr pystr
  | PList "pyval list" | PDict "(pystr \<times> pyval) list"

text \<open>
  Exceptions are values. \<open>Exception\<close> stands for every exception class the code does not
  tell apart from the others; each carries its message (\<open>str(exc)\<close>).
\<close>

datatype exn = RateLimitError pystr | FileNotFoundError pystr | Exception pystr

text \<open>\<open>str.strip()\<close> removes the characters for which \<open>str.isspace\<close> holds.\<close>

definition is_space :: "nat \<Rightarrow> bool" where
  "is_space c = ((9 \<le> c \<and> c \<le> 13) \<or> (28 \<le> c \<and> c \<le> 32) \<or> c = 133 \<or> c = 160
     \<or> c = 5760 \<or> (8192 \<le> c \<and> c \<le> 8202) \<or> c = 8232 \<or> c = 8233 \<or> c = 8239
     \<or> c = 8287 \<or> c = 12288)"

definition py_strip :: "pystr \<Rightarrow> pystr" where
  "py_strip s = rev (dropWhile is_space (rev (dropWhile is_space s)))"

text \<open>
  \<open>str.lower()\<close> on the ASCII letters. The code only compares lower-cased strings with
  ASCII literals (file extensions, the key words of rate-limit messages).
\<close>

definition py_lower :: "pystr \<Rightarrow> pystr" where
  "py_lower s = map (\<lambda>c. if 65 \<le> c \<and> c \<le> 90 then c + 32 else c) s"

text \<open>The decimal rendering of an integer in an f-string.\<close>

fun str_of_nat :: "nat \<Rightarrow> pystr" where
  "str_of_nat n = (if n < 10 then [48 + n] else str_of_nat (n div 10) @ [48 + n mod 10])"

declare str_of_nat.simps [simp del]

definition str_of_int :: "int \<Rightarrow> pystr" where
  "str_of_int i = (if i < 0 then 45 # str_of_nat (nat (- i)) else str_of_nat (nat i))"

text \<open>\<open>sep.join(parts)\<close>.\<close>

fun str_join :: "pystr \<Rightarrow> pystr list \<Rightarrow> pystr" where
  "str_join sep [] = []"
| "str_join sep [x] = x"
| "str_join sep (x # y # ys) = x @ sep @ str_join sep (y # ys)"

section \<open>Data model (\<open>models.py\<close>)\<close>

text \<open>
  The fields of \<open>DocumentChunk\<close> are prefixed with \<open>dc\<close>, since \<open>id\<close> and \<open>text\<close> are
  taken in Isabelle.
\<close>

record DocumentChunk =
  dc_id :: pystr
  dc_text :: pystr
  dc_source :: pystr
  dc_source_type :: pystr
  dc_url :: "pystr option"
  dc_created_at :: "pystr option"
  dc_metadata :: "(pystr \<times> pyval) list"

record RetrievedChunk =
  chunk :: DocumentChunk
  score :: real

section \<open>Answer generator (\<open>rag.py\<close>, \<open>RAGPipeline._build_context\<close>)\<close>

text \<open>
  The line of one chunk, the f-string
  \<^verbatim>\<open>"[LABEL:{item.chunk.source}] {item.chunk.text}\n"\<close>, in which \<open>LABEL\<close> is the
  two-character Chinese word for "source" (code points 26469 and 28304).
\<close>

definition snippet_of :: "RetrievedChunk \<Rightarrow> pystr" where
  "snippet_of item =
     [91, 26469, 28304, 58] @ dc_source (chunk item) @ [93, 32] @ dc_text (chunk item) @ [10]"

text \<open>
  The \<open>for\<close> loop of \<open>_build_context\<close> with its variables \<open>parts\<close> and \<open>current_len\<close>;
  \<open>break\<close> returns the parts collected so far.
\<close>

fun build_context_loop ::
  "RetrievedChunk list \<Rightarrow> int \<Rightarrow> pystr list \<Rightarrow> int \<Rightarrow> pystr list" where
  "build_context_loop [] max_chars parts current_len = parts"
| "build_context_loop (item # rest) max_chars parts current_len =
     (let snippet = snippet_of item
      in if current_len + int (length snippet) > max_chars then parts
         else build_context_loop rest max_chars (parts @ [snippet])
                (current_len + int (length snippet)))"

text \<open>\<open>_build_context\<close> returns \<^verbatim>\<open>"\n".join(parts)\<close>.\<close>

definition build_context :: "RetrievedChunk list \<Rightarrow> int \<Rightarrow> pystr" where
  "build_context chunks max_chars = str_join [10] (build_context_loop chunks max_chars [] 0)"

text \<open>A retrieved chunk with source \<open>a\<close> and text \<open>b\<close>; its line has 9 characters.\<close>

definition example_hit :: RetrievedChunk where
  "example_hit =
     \<lparr>chunk = \<lparr>dc_id = asc ''a-0'', dc_text = asc ''b'', dc_source = asc ''a'',
               dc_source_type = asc ''file'', dc_url = None, dc_created_at = None,
               dc_metadata = []\<rparr>,
      score = 1\<rparr>"

section \<open>Extractor and document loader (\<open>rag.py\<close>, \<open>load_documents\<close>)\<close>

definition ALLOWED_DOC_EXTS :: "pystr list" where
  "ALLOWED_DOC_EXTS = [asc ''.txt'', asc ''.md'', asc ''.pdf'', asc ''.docx'', asc ''.xlsx'']"

text \<open>
  What the loader takes from libraries outside the repository: the UTF-8 decoder
  (\<open>errors="ignore"\<close>, it never raises), the text extraction of \<open>pypdf\<close>, \<open>docx\<close> and
  \<open>openpyxl\<close> (each may raise), and \<open>pathlib\<close>'s \<open>suffix\<close>, \<open>stem\<close> and \<open>name\<close>.
\<close>

record libs =
  decode_utf8 :: "nat list \<Rightarrow> pystr"
  pdf_text :: "nat list \<Rightarrow> exn + pystr"
  docx_text :: "nat list \<Rightarrow> exn + pystr"
  xlsx_text :: "nat list \<Rightarrow> exn + pystr"
  path_suffix :: "pystr \<Rightarrow> pystr"
  path_stem :: "pystr \<Rightarrow> pystr"
  path_name :: "pystr \<Rightarrow> pystr"

definition extract_text_from_bytes :: "libs \<Rightarrow> nat list \<Rightarrow> pystr \<Rightarrow> exn + pystr" where
  "extract_text_from_bytes lb data ext0 =
     (let ext = py_lower ext0
      in if ext = asc ''.txt'' \<or> ext = asc ''.md'' then Inr (decode_utf8 lb data)
         else if ext = asc ''.pdf'' then pdf_text lb data
         else if ext = asc ''.docx'' then docx_text lb data
         else if ext = asc ''.xlsx'' then xlsx_text lb data
         else Inr [])"

text \<open>
  One entry of \<open>documents\<close>: \<open>doc_name\<close> is \<open>str(doc.get("name") or "")\<close>, \<open>doc_content\<close> is
  \<open>None\<close> when the content is missing or is not bytes, \<open>doc_ext\<close> is empty when the entry
  has no extension of its own.
\<close>

record document =
  doc_name :: pystr
  doc_content :: "nat list option"
  doc_ext :: pystr

text \<open>\<open>int(x)\<close> on a float truncates towards zero.\<close>

definition int_of_float :: "real \<Rightarrow> int" where
  "int_of_float x = (if 0 \<le> x then \<lfloor>x\<rfloor> else \<lceil>x\<rceil>)"

text \<open>
  The overlap \<open>load_documents\<close> works with. With a positive \<open>overlap\<close> it is that
  number; otherwise it comes from the product \<open>chunk_size * overlap_ratio\<close>, which is
  exact here and rounded to a float in the source, so the two may differ by one where the
  product lies next to an integer. The properties below hold for every overlap, or speak
  of a positive \<open>overlap\<close> only.
\<close>

definition effective_overlap :: "int \<Rightarrow> int \<Rightarrow> real \<Rightarrow> int" where
  "effective_overlap chunk_size overlap overlap_ratio =
     (if overlap > 0 then overlap
      else max 1 (int_of_float (real_of_int chunk_size * overlap_ratio)))"

text \<open>\<open>a or b\<close> on strings: the empty string is false.\<close>

definition py_or :: "pystr \<Rightarrow> pystr \<Rightarrow> pystr" where
  "py_or a b = (if a \<noteq> [] then a else b)"

text \<open>The \<open>DocumentChunk\<close> built for the pair \<open>(idx, chunk)\<close> of \<open>enumerate\<close>.\<close>

definition make_chunk :: "pystr \<Rightarrow> pystr \<Rightarrow> pystr \<Rightarrow> nat \<times> pystr \<Rightarrow> DocumentChunk" where
  "make_chunk base_id name ext p =
     \<lparr>dc_id = base_id @ [45] @ str_of_nat (fst p),
      dc_text = py_strip (snd p),
      dc_source = name,
      dc_source_type = asc ''file'',
      dc_url = None,
      dc_created_at = None,
      dc_metadata = [(asc ''chunk_id'', PInt (int (fst p))), (asc ''ext'', PStr ext)]\<rparr>"

definition effective_ext :: "libs \<Rightarrow> document \<Rightarrow> pystr" where
  "effective_ext lb doc = py_lower (py_or (doc_ext doc) (path_suffix lb (doc_name doc)))"

text \<open>
  The body of the loop over the documents: the chunks one document adds. \<open>None\<close> is a
  chunker that does not return, \<open>Some (Inl e)\<close> an exception of the extraction.
\<close>

definition doc_chunks ::
  "libs \<Rightarrow> int \<Rightarrow> int \<Rightarrow> document \<Rightarrow> (exn + DocumentChunk list) option" where
  "doc_chunks lb chunk_size eff_overlap doc =
     (let name = doc_name doc
      in case doc_content doc of
           None \<Rightarrow> Some (Inr [])
         | Some content \<Rightarrow>
             if name = [] then Some (Inr [])
             else
               (let ext = effective_ext lb doc
                in if ext \<notin> set ALLOWED_DOC_EXTS then Some (Inr [])
                   else
                     (case extract_text_from_bytes lb content ext of
                        Inl e \<Rightarrow> Some (Inl e)
                      | Inr text \<Rightarrow>
                          if py_strip text = [] then Some (Inr [])
                          else
                            (let base_id = py_or (py_or (path_stem lb name) (path_name lb name))
                                             (asc ''doc'')
                             in case chunk_text text chunk_size eff_overlap of
                                  None \<Rightarrow> None
                                | Some windows \<Rightarrow>
                                    Some (Inr (map (make_chunk base_id name ext)
                                                 (enumerate 0 windows)))))))"

fun load_loop ::
  "libs \<Rightarrow> int \<Rightarrow> int \<Rightarrow> document list \<Rightarrow> DocumentChunk list
     \<Rightarrow> (exn + DocumentChunk list) option" where
  "load_loop lb chunk_size eff_overlap [] docs = Some (Inr docs)"
| "load_loop lb chunk_size eff_overlap (doc # rest) docs =
     (case doc_chunks lb chunk_size eff_overlap doc of
        None \<Rightarrow> None
      | Some (Inl e) \<Rightarrow> Some (Inl e)
      | Some (Inr cs) \<Rightarrow> load_loop lb chunk_size eff_overlap rest (docs @ cs))"

definition load_documents ::
  "libs \<Rightarrow> document list \<Rightarrow> int \<Rightarrow> int \<Rightarrow> real \<Rightarrow> (exn + DocumentChunk list) option" where
  "load_documents lb documents chunk_size overlap overlap_ratio =
     load_loop lb chunk_size (effective_overlap chunk_size overlap overlap_ratio) documents []"

text \<open>
  A text document \<open>a.txt\<close> holding an \<open>a\<close> followed by three blanks, with libraries that
  decode bytes to the same code points.
\<close>

definition example_libs :: libs where
  "example_libs =
     \<lparr>decode_utf8 = (\<lambda>bs. bs), pdf_text = (\<lambda>bs. Inr []), docx_text = (\<lambda>bs. Inr []),
      xlsx_text = (\<lambda>bs. Inr []), path_suffix = (\<lambda>n. asc ''.txt''),
      path_stem = (\<lambda>n. asc ''a''), path_name = (\<lambda>n. n)\<rparr>"

definition example_doc :: document where
  "example_doc = \<lparr>doc_name = asc ''a.txt'', doc_content = Some (asc ''a   ''), doc_ext = asc ''.txt''\<rparr>"

definition example_out :: "DocumentChunk list" where
  "example_out = map (make_chunk (asc ''a'') (asc ''a.txt'') (asc ''.txt''))
                   (enumerate 0 [asc ''a '', asc ''  '', asc ''  ''])"

section \<open>Configuration (\<open>config.py\<close>)\<close>

text \<open>The settings the modelled code reads.\<close>

record Settings =
  top_k :: int
  rerank_top_n :: int
  min_relevance :: real
  max_context_chars :: int
  cache_enabled :: bool
  embedding_batch_size :: int
  embedding_max_retries :: int
  embedding_retry_base_delay :: real
  embedding_retry_max_delay :: real
  chunk_size :: int
  chunk_overlap :: int
  chunk_overlap_ratio :: real

section \<open>Retrieval orchestrator (\<open>rag.py\<close>, \<open>RAGPipeline.retrieve\<close>)\<close>

text \<open>\<open>a or b\<close> on an optional integer: \<open>None\<close> and 0 are false.\<close>

definition int_or :: "int option \<Rightarrow> int \<Rightarrow> int" where
  "int_or a b = (case a of None \<Rightarrow> b | Some v \<Rightarrow> if v = 0 then b else v)"

text \<open>
  The vector index and the reranker are collaborators whose calls may raise:
  \<open>vectorstore.search(query, top_k)\<close> and \<open>reranker.rerank(query, hits, top_k)\<close>.
\<close>

type_synonym searcher = "pystr \<Rightarrow> int \<Rightarrow> exn + RetrievedChunk list"
type_synonym reranker = "pystr \<Rightarrow> RetrievedChunk list \<Rightarrow> int \<Rightarrow> exn + RetrievedChunk list"

definition retrieve ::
  "Settings \<Rightarrow> searcher \<Rightarrow> reranker option \<Rightarrow> pystr \<Rightarrow> int option
     \<Rightarrow> exn + RetrievedChunk list" where
  "retrieve settings search rerank qry topk =
     (let k = int_or topk (top_k settings)
      in case search qry (max k (case rerank of Some r \<Rightarrow> rerank_top_n settings | None \<Rightarrow> k)) of
           Inl e \<Rightarrow> Inl e
         | Inr hits \<Rightarrow>
             (case rerank of
                Some r \<Rightarrow>
                  (case r qry hits k of
                     Inr reranked \<Rightarrow> Inr reranked
                   | Inl e \<Rightarrow> Inr (py_slice hits 0 k))
              | None \<Rightarrow> Inr hits))"

text \<open>The default settings of \<open>config.py\<close> and three hits in recall order.\<close>

definition example_settings :: Settings where
  "example_settings =
     \<lparr>top_k = 4, rerank_top_n = 8, min_relevance = 0.35, max_context_chars = 3200,
      cache_enabled = True, embedding_batch_size = 32, embedding_max_retries = 4,
      embedding_retry_base_delay = 0.8, embedding_retry_max_delay = 6,
      chunk_size = 700, chunk_overlap = 0, chunk_overlap_ratio = 0.12\<rparr>"

definition example_hits :: "RetrievedChunk list" where
  "example_hits = [example_hit\<lparr>score := 0.9\<rparr>, example_hit\<lparr>score := 0.5\<rparr>, example_hit\<lparr>score := 0.2\<rparr>]"

section \<open>Agent orchestrator (\<open>agents.py\<close>, \<open>AgentOrchestrator\<close>)\<close>

text \<open>
  \<open>QueryRequest\<close>, \<open>SourceAttribution\<close> and \<open>QueryResponse\<close> of \<open>models.py\<close>. The field
  \<open>top_k\<close> of a request is \<open>req_top_k\<close> here and the fields of an attribution are prefixed,
  as the names are taken by the settings and by \<open>RetrievedChunk\<close>.
\<close>

record QueryRequest =
  query :: pystr
  req_top_k :: "int option"
  max_tokens :: "int option"
  streaming :: bool
  session_id :: "pystr option"

record SourceAttribution =
  sa_source :: pystr
  sa_snippet :: pystr
  sa_score :: real

record QueryResponse =
  answer :: pystr
  sources :: "SourceAttribution list"
  latency_ms :: "real option"

text \<open>
  What the orchestrator takes from outside the modelled code and never changes: the
  SHA-256 hex digest of the UTF-8 encoding of a string, the templates of \<open>prompts.py\<close>
  (\<open>ANSWER_PROMPT.format(query, context)\<close>, \<open>FALLBACK_GREETING\<close>,
  \<open>FALLBACK_NO_CONTEXT.format(query)\<close>) and the match of \<open>GREETING_PATTERN\<close>.
\<close>

record deps =
  sha256_hex :: "pystr \<Rightarrow> pystr"
  answer_prompt :: "pystr \<Rightarrow> pystr \<Rightarrow> pystr"
  fallback_greeting :: pystr
  fallback_no_context :: "pystr \<Rightarrow> pystr"
  greeting_pattern :: "pystr \<Rightarrow> bool"

text \<open>
  What one call of \<open>handle\<close> meets outside: the vector index, the reranker (if one is
  configured), the LangChain pipeline (if enabled), the chat backend
  \<open>LLMClient.generate(prompt, max_tokens)\<close> and the measured latency.
\<close>

record world =
  index_search :: searcher
  reranker :: "reranker option"
  lc_rag :: "(pystr \<Rightarrow> exn + pystr) option"
  llm_generate :: "pystr \<Rightarrow> int option \<Rightarrow> exn + pystr"
  elapsed_ms :: real

text \<open>An optional integer in an f-string: \<open>None\<close> or the decimal number.\<close>

definition fmt_opt_int :: "int option \<Rightarrow> pystr" where
  "fmt_opt_int v = (case v of None \<Rightarrow> asc ''None'' | Some i \<Rightarrow> str_of_int i)"

text \<open>\<open>_cache_key\<close>: the digest of \<^verbatim>\<open>f"{req.query}|{req.top_k}|{req.max_tokens}"\<close>.\<close>

definition cache_key :: "deps \<Rightarrow> QueryRequest \<Rightarrow> pystr" where
  "cache_key dp req =
     sha256_hex dp (query req @ [124] @ fmt_opt_int (req_top_k req) @ [124]
                      @ fmt_opt_int (max_tokens req))"

text \<open>The threshold of \<open>_apply_relevance_threshold\<close> after its clamp.\<close>

definition relevance_threshold :: "Settings \<Rightarrow> real" where
  "relevance_threshold settings = max 0 (min 1 (min_relevance settings))"

text \<open>\<open>max(values, default=d)\<close>.\<close>

definition max_default :: "real list \<Rightarrow> real \<Rightarrow> real" where
  "max_default values d = (case values of [] \<Rightarrow> d | v # vs \<Rightarrow> fold max vs v)"

definition apply_relevance_threshold ::
  "Settings \<Rightarrow> RetrievedChunk list \<Rightarrow> RetrievedChunk list \<times> real" where
  "apply_relevance_threshold settings hits =
     (let threshold = relevance_threshold settings;
          best_score = max_default (map score hits) 0
      in if threshold \<le> 0 then (hits, best_score)
         else (filter (\<lambda>h. score h \<ge> threshold) hits, best_score))"

text \<open>\<open>_is_greeting\<close> and \<open>_fallback_text\<close>; the default subject has three Chinese characters.\<close>

definition is_greeting :: "deps \<Rightarrow> pystr \<Rightarrow> bool" where
  "is_greeting dp s =
     (if s = [] then False
      else let normalized = py_strip s
           in if normalized = [] then False
              else if greeting_pattern dp normalized then True
              else let compact = filter (\<lambda>c. c \<noteq> 32) normalized
                   in int (length compact) \<le> 6
                      \<and> (py_lower compact = asc ''hello'' \<or> py_lower compact = asc ''hi''))"

definition fallback_text :: "deps \<Rightarrow> pystr \<Rightarrow> pystr" where
  "fallback_text dp qry =
     (let clean = py_strip qry
      in if is_greeting dp clean then fallback_greeting dp
         else fallback_no_context dp (py_or clean [35813, 38382, 39064]))"

definition build_low_relevance_response :: "deps \<Rightarrow> pystr \<Rightarrow> QueryResponse" where
  "build_low_relevance_response dp qry =
     \<lparr>answer = fallback_text dp qry, sources = [], latency_ms = Some 0\<rparr>"

definition generate_answer ::
  "Settings \<Rightarrow> deps \<Rightarrow> world \<Rightarrow> pystr \<Rightarrow> RetrievedChunk list \<Rightarrow> int option \<Rightarrow> exn + pystr" where
  "generate_answer settings dp w qry hits mt =
     (let context = build_context hits (max_context_chars settings);
          prompt = answer_prompt dp qry context
      in llm_generate w prompt mt)"

text \<open>The \<open>SourceAttribution\<close> of a hit: the snippet is \<open>hit.chunk.text[:160]\<close>.\<close>

definition attribution :: "RetrievedChunk \<Rightarrow> SourceAttribution" where
  "attribution hit =
     \<lparr>sa_source = dc_source (chunk hit), sa_snippet = py_slice (dc_text (chunk hit)) 0 160,
      sa_score = score hit\<rparr>"

text \<open>
  The response cache is a dictionary from keys to responses. \<open>cached\<close> is the test
  \<open>cache_enabled and cache_key in self.cache\<close> with the entry it finds, \<open>store\<close> the
  assignment guarded by \<open>cache_enabled\<close>.
\<close>

type_synonym cache = "pystr \<rightharpoonup> QueryResponse"

definition store :: "Settings \<Rightarrow> cache \<Rightarrow> pystr \<Rightarrow> QueryResponse \<Rightarrow> cache" where
  "store settings c key resp = (if cache_enabled settings then c(key \<mapsto> resp) else c)"

definition cached :: "Settings \<Rightarrow> cache \<Rightarrow> pystr \<Rightarrow> QueryResponse option" where
  "cached settings c key = (if cache_enabled settings then c key else None)"

text \<open>
  \<open>handle\<close> returns the response, the cache-hit flag and the cache it leaves; an exception
  of the retrieval or of the generation leaves the cache as it was.
\<close>

definition handle ::
  "Settings \<Rightarrow> deps \<Rightarrow> world \<Rightarrow> cache \<Rightarrow> QueryRequest
     \<Rightarrow> exn + (QueryResponse \<times> bool) \<times> cache" where
  "handle settings dp w c req =
     (let key = cache_key dp req
      in case cached settings c key of
           Some resp \<Rightarrow> Inr ((resp, True), c)
         | None \<Rightarrow>
             (case retrieve settings (index_search w) (reranker w) (query req) (req_top_k req) of
                Inl e \<Rightarrow> Inl e
              | Inr hits \<Rightarrow>
                  (let (filtered_hits, best_score) = apply_relevance_threshold settings hits
                   in if filtered_hits = [] then
                        (let resp = build_low_relevance_response dp (query req)
                         in Inr ((resp, False), store settings c key resp))
                      else
                        (case (case lc_rag w of
                                 Some lc \<Rightarrow> lc (query req)
                               | None \<Rightarrow> generate_answer settings dp w (query req)
                                           filtered_hits (max_tokens req)) of
                           Inl e \<Rightarrow> Inl e
                         | Inr answer_text \<Rightarrow>
                             (let resp = \<lparr>answer = answer_text,
                                          sources = map attribution filtered_hits,
                                          latency_ms = Some (elapsed_ms w)\<rparr>
                              in Inr ((resp, False), store settings c key resp))))))"

text \<open>
  Example collaborators: an index whose two hits score 0.2 and 0.1, below the default
  threshold 0.35, and one whose hits score up to 0.9; two requests with the same query,
  \<open>top_k\<close> and \<open>max_tokens\<close> and different sessions and streaming flags.
\<close>

definition example_deps :: deps where
  "example_deps =
     \<lparr>sha256_hex = (\<lambda>s. s), answer_prompt = (\<lambda>q ctx. q @ [10] @ ctx),
      fallback_greeting = asc ''hello!'', fallback_no_context = (\<lambda>q. asc ''nothing on '' @ q),
      greeting_pattern = (\<lambda>s. s = asc ''hey'')\<rparr>"

definition low_hits :: "RetrievedChunk list" where
  "low_hits = [example_hit\<lparr>score := 0.2\<rparr>, example_hit\<lparr>score := 0.1\<rparr>]"

definition low_world :: world where
  "low_world =
     \<lparr>index_search = (\<lambda>q n. Inr low_hits), reranker = None, lc_rag = None,
      llm_generate = (\<lambda>p mt. Inr (asc ''generated'')), elapsed_ms = 12\<rparr>"

definition high_world :: world where
  "high_world = low_world\<lparr>index_search := (\<lambda>q n. Inr example_hits)\<rparr>"

definition example_req :: QueryRequest where
  "example_req =
     \<lparr>query = asc ''q'', req_top_k = None, max_tokens = None, streaming = False,
      session_id = Some (asc ''s1'')\<rparr>"

definition fallback_resp :: QueryResponse where
  "fallback_resp = \<lparr>answer = asc ''nothing on q'', sources = [], latency_ms = Some 0\<rparr>"

definition other_req :: QueryRequest where
  "other_req = example_req\<lparr>streaming := True, session_id := Some (asc ''s2'')\<rparr>"

text \<open>
  Settings whose configured threshold 7 lies above the range of the scores, and an index
  whose only hit scores 1.
\<close>

definition strict_settings :: Settings where
  "strict_settings = example_settings\<lparr>min_relevance := 7\<rparr>"

definition exact_world :: world where
  "exact_world = low_world\<lparr>index_search := (\<lambda>q n. Inr [example_hit])\<rparr>"

section \<open>Remote rerankers (\<open>rag.py\<close>)\<close>

text \<open>\<open>d.get(key)\<close> on a dictionary: \<open>None\<close> when the key is missing.\<close>

definition py_get :: "(pystr \<times> pyval) list \<Rightarrow> pystr \<Rightarrow> pyval" where
  "py_get d key = (case map_of d key of Some v \<Rightarrow> v | None \<Rightarrow> PNone)"

text \<open>
  The element \<open>xs[i]\<close>. An index from \<open>-len(xs)\<close> up to \<open>-1\<close> is taken from the end of
  the list; outside \<open>-len(xs) .. len(xs) - 1\<close> the access raises \<open>IndexError\<close>.
\<close>

definition py_index :: "'a list \<Rightarrow> int \<Rightarrow> exn + 'a" where
  "py_index xs i =
     (if 0 \<le> i \<and> i < int (length xs) then Inr (xs ! nat i)
      else if i < 0 \<and> - int (length xs) \<le> i then Inr (xs ! nat (int (length xs) + i))
      else Inl (Exception (asc ''IndexError'')))"

text \<open>
  \<open>str.isdigit\<close> and \<open>int(s)\<close> on strings of ASCII digits; digits of other scripts are
  outside the model.
\<close>

definition str_isdigit :: "pystr \<Rightarrow> bool" where
  "str_isdigit s = (s \<noteq> [] \<and> list_all (\<lambda>c. 48 \<le> c \<and> c \<le> 57) s)"

definition int_of_digits :: "pystr \<Rightarrow> int" where
  "int_of_digits s = foldl (\<lambda>acc c. 10 * acc + (int c - 48)) 0 s"

text \<open>
  The first list among the values of the given keys: the loop of
  \<open>OpenAICompatibleReranker._extract_entries\<close>. A body that is no dictionary has no
  \<open>get\<close>, and the call raises.
\<close>

fun first_list_entry :: "(pystr \<times> pyval) list \<Rightarrow> pystr list \<Rightarrow> pyval list" where
  "first_list_entry d [] = []"
| "first_list_entry d (key # keys) =
     (case py_get d key of PList vs \<Rightarrow> vs | _ \<Rightarrow> first_list_entry d keys)"

definition openai_extract_entries :: "pyval \<Rightarrow> exn + pyval list" where
  "openai_extract_entries data =
     (case data of
        PDict d \<Rightarrow> Inr (first_list_entry d [asc ''results'', asc ''data'', asc ''result''])
      | _ \<Rightarrow> Inl (Exception (asc ''AttributeError'')))"

text \<open>
  \<open>OpenAICompatibleReranker._resolve_index\<close>: the value under \<open>index\<close> when it is an
  integer (a \<open>bool\<close> is an \<open>int\<close> in Python) or a string of digits.
\<close>

definition openai_resolve_index :: "pyval \<Rightarrow> exn + int option" where
  "openai_resolve_index entry =
     (case entry of
        PDict d \<Rightarrow>
          (case py_get d (asc ''index'') of
             PInt i \<Rightarrow> Inr (Some i)
           | PBool b \<Rightarrow> Inr (Some (if b then 1 else 0))
           | PStr s \<Rightarrow> Inr (if str_isdigit s then Some (int_of_digits s) else None)
           | _ \<Rightarrow> Inr None)
      | _ \<Rightarrow> Inl (Exception (asc ''AttributeError'')))"

text \<open>
  \<open>_resolve_score\<close> over the given keys: a number under a key is the score, a string is
  parsed by \<open>float\<close> (a library function; \<open>None\<close> is its \<open>ValueError\<close>, after which the
  next key is tried), and the default is the candidate's own score. Scores are real
  numbers: the \<open>OverflowError\<close> of \<open>float\<close> on an integer beyond the range of a float is
  outside the model.
\<close>

fun resolve_score ::
  "(pystr \<Rightarrow> real option) \<Rightarrow> pystr list \<Rightarrow> (pystr \<times> pyval) list \<Rightarrow> real \<Rightarrow> real" where
  "resolve_score parse_float [] d dflt = dflt"
| "resolve_score parse_float (key # keys) d dflt =
     (case py_get d key of
        PInt i \<Rightarrow> real_of_int i
      | PBool b \<Rightarrow> (if b then 1 else 0)
      | PFloat x \<Rightarrow> x
      | PStr s \<Rightarrow>
          (case parse_float s of
             Some x \<Rightarrow> x
           | None \<Rightarrow> resolve_score parse_float keys d dflt)
      | _ \<Rightarrow> resolve_score parse_float keys d dflt)"

definition OPENAI_SCORE_KEYS :: "pystr list" where
  "OPENAI_SCORE_KEYS = [asc ''relevance_score'', asc ''score'', asc ''similarity'']"

definition entry_dict :: "pyval \<Rightarrow> (pystr \<times> pyval) list" where
  "entry_dict entry = (case entry of PDict d \<Rightarrow> d | _ \<Rightarrow> [])"

text \<open>
  The loop over the entries of \<open>OpenAICompatibleReranker.rerank\<close> with its variables
  \<open>scored\<close> and \<open>used\<close>. An index is skipped when it is \<open>None\<close>, not below the number of
  candidates, or already used; there is no test that it is not negative.
\<close>

fun openai_scan ::
  "(pystr \<Rightarrow> real option) \<Rightarrow> RetrievedChunk list \<Rightarrow> int \<Rightarrow> pyval list
     \<Rightarrow> RetrievedChunk list \<Rightarrow> int set \<Rightarrow> exn + RetrievedChunk list \<times> int set" where
  "openai_scan parse_float candidates topk [] scored used = Inr (scored, used)"
| "openai_scan parse_float candidates topk (entry # rest) scored used =
     (case openai_resolve_index entry of
        Inl e \<Rightarrow> Inl e
      | Inr None \<Rightarrow> openai_scan parse_float candidates topk rest scored used
      | Inr (Some idx) \<Rightarrow>
          if idx \<ge> int (length candidates) \<or> idx \<in> used
          then openai_scan parse_float candidates topk rest scored used
          else
            (case py_index candidates idx of
               Inl e \<Rightarrow> Inl e
             | Inr cand \<Rightarrow>
                 (let sc = resolve_score parse_float OPENAI_SCORE_KEYS (entry_dict entry)
                             (score cand);
                      scored' = scored @ [\<lparr>chunk = chunk cand, score = sc\<rparr>];
                      used' = insert idx used
                  in if int (length scored') \<ge> min topk (int (length candidates))
                     then Inr (scored', used')
                     else openai_scan parse_float candidates topk rest scored' used')))"

text \<open>The padding loop over \<open>enumerate(candidates)\<close>, shared by both remote rerankers.\<close>

fun pad_unused ::
  "int \<Rightarrow> (nat \<times> RetrievedChunk) list \<Rightarrow> int set \<Rightarrow> RetrievedChunk list
     \<Rightarrow> RetrievedChunk list" where
  "pad_unused topk [] used scored = scored"
| "pad_unused topk ((i, item) # rest) used scored =
     (if int (length scored) \<ge> topk then scored
      else if int i \<in> used then pad_unused topk rest used scored
      else pad_unused topk rest used (scored @ [\<lparr>chunk = chunk item, score = score item\<rparr>]))"

text \<open>
  The remote call (\<open>httpx.post\<close>, \<open>raise_for_status\<close>, \<open>resp.json()\<close>) takes the query,
  the candidate texts and \<open>top_n\<close>, and returns the parsed body or raises.
\<close>

type_synonym remote_rerank = "pystr \<Rightarrow> pystr list \<Rightarrow> int \<Rightarrow> exn + pyval"

definition openai_rerank ::
  "Settings \<Rightarrow> remote_rerank \<Rightarrow> (pystr \<Rightarrow> real option) \<Rightarrow> pystr \<Rightarrow> RetrievedChunk list \<Rightarrow> int
     \<Rightarrow> exn + RetrievedChunk list" where
  "openai_rerank settings remote parse_float qry hits topk =
     (if hits = [] then Inr []
      else
        (let candidate_limit = max (int_or (Some topk) (top_k settings)) (rerank_top_n settings);
             candidates = py_slice hits 0 candidate_limit;
             documents = map (\<lambda>h. dc_text (chunk h)) candidates;
             top_n = min (int_or (Some topk) (int (length candidates))) (int (length candidates))
         in case remote qry documents top_n of
              Inl e \<Rightarrow> Inl e
            | Inr data \<Rightarrow>
                (case openai_extract_entries data of
                   Inl e \<Rightarrow> Inl e
                 | Inr entries \<Rightarrow>
                     if entries = [] then Inr (py_slice candidates 0 topk)
                     else
                       (case openai_scan parse_float candidates topk entries [] {} of
                          Inl e \<Rightarrow> Inl e
                        | Inr (scored, used) \<Rightarrow>
                            if int (length scored) < min topk (int (length candidates))
                            then Inr (pad_unused topk (enumerate 0 candidates) used scored)
                            else Inr scored))))"

text \<open>
  Two candidates with different chunks, and a well-formed body whose entries name the
  indices \<open>-1\<close> and \<open>1\<close>.
\<close>

definition cand0 :: RetrievedChunk where
  "cand0 = \<lparr>chunk = (chunk example_hit)\<lparr>dc_id := asc ''a-0'', dc_text := asc ''first''\<rparr>,
            score = 0.9\<rparr>"

definition cand1 :: RetrievedChunk where
  "cand1 = \<lparr>chunk = (chunk example_hit)\<lparr>dc_id := asc ''a-1'', dc_text := asc ''second''\<rparr>,
            score = 0.8\<rparr>"

definition negative_index_body :: pyval where
  "negative_index_body =
     PDict [(asc ''results'',
             PList [PDict [(asc ''index'', PInt (- 1))], PDict [(asc ''index'', PInt 1)]])]"

section \<open>Embedding provider (\<open>embedding_provider.py\<close>)\<close>

text \<open>
  The arrays of the provider hold \<open>float32\<close> numbers, and numpy, which computes with
  them, is outside the repository. The provider takes four operations from it: the
  conversion of one number of the backend's answer to \<open>float32\<close>
  (\<^verbatim>\<open>np.asarray(vecs, dtype="float32")\<close>), the norm of one row
  (\<^verbatim>\<open>np.linalg.norm(arr, axis=1, keepdims=True)\<close>), the sum \<open>x + 1e-12\<close>, and the quotient
  of two numbers. Nothing is assumed of them: \<open>'p\<close> is the type of the numbers the
  backend answers with, \<open>'f\<close> the type of the \<open>float32\<close> numbers, with their infinities
  and their NaN.
\<close>

record ('p, 'f) numpy =
  asarray_float32 :: "'p \<Rightarrow> 'f"
  linalg_norm :: "'f list \<Rightarrow> 'f"
  add_epsilon :: "'f \<Rightarrow> 'f"
  true_divide :: "'f \<Rightarrow> 'f \<Rightarrow> 'f"

type_synonym 'f matrix = "'f list list"

text \<open>
  A provider (\<open>_embed_qianfan\<close> or \<open>_embed_openai\<close>) is called on a batch of texts and
  returns a matrix or raises. What it answers may change from call to call, so it takes
  the number of calls made before.
\<close>

type_synonym 'f provider = "nat \<Rightarrow> pystr list \<Rightarrow> exn + 'f matrix"

text \<open>
  One row of \<open>arr / norms\<close>: the row is converted, its norm is taken and \<open>1e-12\<close> is
  added to the norm, and every number of the row is divided by the sum.
\<close>

definition normalize_row :: "('p, 'f) numpy \<Rightarrow> 'p list \<Rightarrow> 'f list" where
  "normalize_row np v =
     (let arr = map (asarray_float32 np) v;
          norms = add_epsilon np (linalg_norm np arr)
      in map (\<lambda>x. true_divide np x norms) arr)"

text \<open>
  \<open>_embed_openai\<close>: the backend call \<open>embeddings.create\<close> may raise; \<open>np.asarray\<close> needs
  rows of one length, and the norm along axis 1 needs at least one row; each row is then
  divided by its norm plus \<open>1e-12\<close>.
\<close>

definition rectangular :: "'a list list \<Rightarrow> bool" where
  "rectangular m = (case m of [] \<Rightarrow> True | r # rs \<Rightarrow> list_all (\<lambda>x. length x = length r) rs)"

definition embed_openai :: "('p, 'f) numpy \<Rightarrow> 'p provider \<Rightarrow> 'f provider" where
  "embed_openai np backend n texts =
     (case backend n texts of
        Inl e \<Rightarrow> Inl e
      | Inr vecs \<Rightarrow>
          if vecs = [] \<or> \<not> rectangular vecs then Inl (Exception (asc ''ValueError''))
          else Inr (map (normalize_row np) vecs))"

text \<open>\<open>token in msg\<close> on strings.\<close>

fun contains :: "pystr \<Rightarrow> pystr \<Rightarrow> bool" where
  "contains token [] = (token = [])"
| "contains token (c # cs) = (take (length token) (c # cs) = token \<or> contains token cs)"

definition exn_message :: "exn \<Rightarrow> pystr" where
  "exn_message e = (case e of RateLimitError m \<Rightarrow> m | FileNotFoundError m \<Rightarrow> m | Exception m \<Rightarrow> m)"

definition is_retryable_error :: "exn \<Rightarrow> bool" where
  "is_retryable_error exc =
     (case exc of
        RateLimitError m \<Rightarrow> True
      | _ \<Rightarrow>
          (let msg = py_lower (exn_message exc)
           in list_ex (\<lambda>token. contains token msg)
                [asc ''429'', asc ''rate limit'', asc ''too many requests'', asc ''tpm'',
                 asc ''rpm'']))"

text \<open>
  The effective parameters \<open>embed\<close> computes from the settings; \<open>x or d\<close> replaces a zero.
\<close>

definition real_or :: "real \<Rightarrow> real \<Rightarrow> real" where
  "real_or x d = (if x = 0 then d else x)"

definition batch_size :: "Settings \<Rightarrow> int" where
  "batch_size settings = max 1 (int_or (Some (embedding_batch_size settings)) 1)"

definition max_retries :: "Settings \<Rightarrow> int" where
  "max_retries settings = max 1 (int_or (Some (embedding_max_retries settings)) 1)"

definition base_delay :: "Settings \<Rightarrow> real" where
  "base_delay settings = max (1 / 10) (real_or (embedding_retry_base_delay settings) (1 / 10))"

definition max_delay :: "Settings \<Rightarrow> real" where
  "max_delay settings =
     max (base_delay settings) (real_or (embedding_retry_max_delay settings) (base_delay settings))"

text \<open>
  The state \<open>embed\<close> works on: the number of provider calls made so far and the delays
  handed to \<open>time.sleep\<close>, in order.
\<close>

record embed_state =
  calls :: nat
  sleeps :: "real list"

text \<open>
  The \<open>while True\<close> loop for one batch, with its variables \<open>attempt\<close> and \<open>delay\<close>. Every
  failed call raises \<open>attempt\<close>, and the loop ends when it reaches \<open>max_retries\<close>.
\<close>

function embed_batch ::
  "'f provider \<Rightarrow> int \<Rightarrow> real \<Rightarrow> pystr list \<Rightarrow> int \<Rightarrow> real \<Rightarrow> embed_state
     \<Rightarrow> (exn + 'f matrix) \<times> embed_state" where
  "embed_batch prov retries maxd batch attempt delay st =
     (case prov (calls st) batch of
        Inr vecs \<Rightarrow> (Inr vecs, st\<lparr>calls := Suc (calls st)\<rparr>)
      | Inl exc \<Rightarrow>
          if attempt + 1 \<ge> retries \<or> \<not> is_retryable_error exc
          then (Inl exc, st\<lparr>calls := Suc (calls st)\<rparr>)
          else embed_batch prov retries maxd batch (attempt + 1) (min (delay * 2) maxd)
                 (st\<lparr>calls := Suc (calls st), sleeps := sleeps st @ [delay]\<rparr>))"
  by pat_completeness auto

termination
  by (relation "measure (\<lambda>(prov, retries, maxd, batch, attempt, delay, st). nat (retries - attempt))")
     auto

declare embed_batch.simps [simp del]

text \<open>
  The \<open>for\<close> loop over the batches \<open>texts[start : start + batch_size]\<close>, with the list
  \<open>batches\<close> of the matrices obtained so far. An exception of a batch leaves the loop.
\<close>

function slices :: "nat \<Rightarrow> 'a list \<Rightarrow> 'a list list" where
  "slices n xs = (if n = 0 \<or> xs = [] then [] else take n xs # slices n (drop n xs))"
  by pat_completeness auto

termination
  by (relation "measure (\<lambda>(n, xs). length xs)") auto

declare slices.simps [simp del]

fun embed_batches ::
  "'f provider \<Rightarrow> int \<Rightarrow> real \<Rightarrow> real \<Rightarrow> pystr list list \<Rightarrow> 'f matrix list \<Rightarrow> embed_state
     \<Rightarrow> (exn + 'f matrix list) \<times> embed_state" where
  "embed_batches prov retries maxd based [] batches st = (Inr batches, st)"
| "embed_batches prov retries maxd based (b # bs) batches st =
     (case embed_batch prov retries maxd b 0 based st of
        (Inl e, st') \<Rightarrow> (Inl e, st')
      | (Inr vecs, st') \<Rightarrow> embed_batches prov retries maxd based bs (batches @ [vecs]) st')"

text \<open>\<open>np.vstack\<close> raises unless all the rows have one length.\<close>

definition vstack :: "'f matrix list \<Rightarrow> exn + 'f matrix" where
  "vstack batches =
     (if rectangular (concat batches) then Inr (concat batches)
      else Inl (Exception (asc ''ValueError'')))"

definition embed ::
  "Settings \<Rightarrow> 'f provider option \<Rightarrow> pystr list \<Rightarrow> embed_state
     \<Rightarrow> (exn + 'f matrix) \<times> embed_state" where
  "embed settings prov texts st =
     (if texts = [] then (Inr [], st)
      else
        (case prov of
           None \<Rightarrow> (Inl (Exception (asc ''Embedding provider not initialized'')), st)
         | Some p \<Rightarrow>
             (case embed_batches p (max_retries settings) (max_delay settings)
                     (base_delay settings) (slices (nat (batch_size settings)) texts) [] st of
                (Inl e, st') \<Rightarrow> (Inl e, st')
              | (Inr batches, st') \<Rightarrow>
                  if batches = [] then (Inr [], st') else (vstack batches, st'))))"

text \<open>
  The delays of \<open>n\<close> successive retries as the loop computes them: the current delay,
  then twice it capped at the maximum, and so on.
\<close>

fun backoff :: "real \<Rightarrow> real \<Rightarrow> nat \<Rightarrow> real list" where
  "backoff delay maxd 0 = []"
| "backoff delay maxd (Suc n) = delay # backoff (min (delay * 2) maxd) maxd n"

text \<open>
  Example providers: one that always answers with a rate-limit message, one that rejects
  the request, one that is throttled once and then answers; and settings whose
  configured base delay is 0.05 seconds.
\<close>

definition throttled :: "real provider" where
  "throttled n texts = Inl (Exception (asc ''HTTP 429''))"

definition rejecting :: "real provider" where
  "rejecting n texts = Inl (Exception (asc ''bad request''))"

definition flaky :: "real provider" where
  "flaky n texts = (if n = 0 then Inl (RateLimitError (asc ''slow down'')) else Inr [[1]])"

definition short_delay_settings :: Settings where
  "short_delay_settings = example_settings\<lparr>embedding_retry_base_delay := 1 / 20\<rparr>"

definition start_state :: embed_state where
  "start_state = \<lparr>calls = 0, sleeps = []\<rparr>"


text \<open>
  For the examples, the arithmetic of IEEE 754 \<open>binary32\<close>: a number is finite, an
  infinity or NaN (the sign of a zero is not kept). \<open>round32\<close> rounds a real number to the
  nearest \<open>binary32\<close> number, ties to the even significand: the numbers from \<open>2^e\<close> up to
  \<open>2^(e+1)\<close> lie \<open>2^(e-23)\<close> apart, the subnormal ones \<open>2^(-149)\<close> apart, and what rounds
  to \<open>2^128\<close> or beyond is an infinity.
\<close>

datatype float32 = Finite real | PlusInf | MinusInf | NaN

definition pow2 :: "int \<Rightarrow> real" where
  "pow2 k = (if 0 \<le> k then 2 ^ nat k else 1 / 2 ^ nat (- k))"

definition round_half_even :: "real \<Rightarrow> int" where
  "round_half_even y =
     (let n = \<lfloor>y\<rfloor>; f = y - of_int n
      in if f < 1 / 2 then n else if 1 / 2 < f then n + 1 else if even n then n else n + 1)"

definition round32 :: "real \<Rightarrow> float32" where
  "round32 x =
     (if x = 0 then Finite 0
      else
        (let e = max (- 126) \<lfloor>log 2 \<bar>x\<bar>\<rfloor>;
             ulp = pow2 (e - 23);
             r = of_int (round_half_even (x / ulp)) * ulp
         in if 2 ^ 128 \<le> r then PlusInf
            else if r \<le> - (2 ^ 128) then MinusInf
            else Finite r))"

text \<open>
  Sum, square, square root and quotient: the exact result, rounded; an infinity or NaN
  where IEEE 754 says so.
\<close>

fun f32_add :: "float32 \<Rightarrow> float32 \<Rightarrow> float32" where
  "f32_add (Finite x) (Finite y) = round32 (x + y)"
| "f32_add (Finite x) y = y"
| "f32_add x (Finite y) = x"
| "f32_add PlusInf PlusInf = PlusInf"
| "f32_add MinusInf MinusInf = MinusInf"
| "f32_add x y = NaN"

fun f32_square :: "float32 \<Rightarrow> float32" where
  "f32_square (Finite x) = round32 (x * x)"
| "f32_square NaN = NaN"
| "f32_square x = PlusInf"

fun f32_sqrt :: "float32 \<Rightarrow> float32" where
  "f32_sqrt (Finite x) = (if x < 0 then NaN else round32 (sqrt x))"
| "f32_sqrt PlusInf = PlusInf"
| "f32_sqrt x = NaN"

fun f32_div :: "float32 \<Rightarrow> float32 \<Rightarrow> float32" where
  "f32_div (Finite x) (Finite y) =
     (if y = 0 then (if x = 0 then NaN else if 0 < x then PlusInf else MinusInf)
      else round32 (x / y))"
| "f32_div (Finite x) PlusInf = Finite 0"
| "f32_div (Finite x) MinusInf = Finite 0"
| "f32_div PlusInf (Finite y) = (if 0 \<le> y then PlusInf else MinusInf)"
| "f32_div MinusInf (Finite y) = (if 0 \<le> y then MinusInf else PlusInf)"
| "f32_div x y = NaN"

text \<open>
  numpy with this arithmetic. The norm of a row is the square root of the sum of the
  squares, here added from left to right (numpy adds them in an order of its own; the
  sum is the same when at most one square is not zero, as in the examples). The
  \<open>1e-12\<close> of the source becomes a \<open>float32\<close> number before it is added.
\<close>

definition f32_norm :: "float32 list \<Rightarrow> float32" where
  "f32_norm row = f32_sqrt (foldl f32_add (Finite 0) (map f32_square row))"

definition epsilon32 :: float32 where
  "epsilon32 = round32 (1 / 10 ^ 12)"

definition ieee_numpy :: "(real, float32) numpy" where
  "ieee_numpy =
     \<lparr>asarray_float32 = round32, linalg_norm = f32_norm,
      add_epsilon = (\<lambda>x. f32_add x epsilon32), true_divide = f32_div\<rparr>"



definition huge_backend :: "real provider" where
  "huge_backend n texts = Inr [[10 ^ 39, 0]]"

section \<open>Ingestion coordinator (\<open>main.py\<close>, \<open>_run_vectorize_job\<close>)\<close>

text \<open>
  A status report: the payload of \<open>_fail\<close> (job id, error) or of \<open>_complete\<close> (job id,
  chunk count, note).
\<close>

datatype report =
  Failed "pystr option" pystr
| Completed "pystr option" nat "pystr option"

text \<open>
  A vector of the table. The job never looks into the vectors, so their numbers are kept
  as real numbers here.
\<close>

type_synonym vec = "real list"

text \<open>
  What the job works on: the rows of the vector table (a chunk with its vector; the
  \<open>document_id\<close> of a row is the \<open>source\<close> of its chunk), the calls of
  \<open>redis_coord.set_status\<close> and \<open>record_event\<close> in the order they are made, the chunk
  references kept by the document storage, and the upload counter of the metrics. The
  status sink swallows its own failures, so a report is the call made to it.
\<close>

record job_state =
  index :: "(DocumentChunk \<times> vec) list"
  statuses :: "(pystr \<times> report) list"
  events :: "(pystr \<times> report) list"
  vector_refs :: "pystr \<rightharpoonup> pystr list"
  doc_uploads :: nat

text \<open>
  The collaborators of the job: \<open>doc_storage.get_document\<close>, the libraries of the
  loader, the embedding call of the vector store and \<open>doc_storage.update_vector_refs\<close>
  (\<open>Some e\<close> when it raises for a name). The database of the vector table is taken to
  answer; it refuses one statement that inserts a chunk id twice.
\<close>

record job_env =
  get_document :: "pystr \<Rightarrow> exn + document"
  job_libs :: libs
  embed_texts :: "pystr list \<Rightarrow> exn + vec list"
  refs_fault :: "pystr \<Rightarrow> exn option"

record entry =
  filename :: pystr
  job_id :: "pystr option"

definition filenames_of :: "entry list \<Rightarrow> pystr list" where
  "filenames_of entries = map filename (filter (\<lambda>e. filename e \<noteq> []) entries)"

text \<open>\<open>job_map.get(doc_name)\<close>: the job id of the last entry with that file name.\<close>

definition job_map :: "entry list \<Rightarrow> pystr \<Rightarrow> pystr option" where
  "job_map entries name =
     (case filter (\<lambda>e. filename e \<noteq> [] \<and> filename e = name) entries of
        [] \<Rightarrow> None
      | e # es \<Rightarrow> job_id (last (e # es)))"

definition report_status :: "pystr \<Rightarrow> report \<Rightarrow> job_state \<Rightarrow> job_state" where
  "report_status name r st =
     st\<lparr>statuses := statuses st @ [(name, r)], events := events st @ [(name, r)]\<rparr>"

definition fail :: "(pystr \<Rightarrow> pystr option) \<Rightarrow> pystr \<Rightarrow> pystr \<Rightarrow> job_state \<Rightarrow> job_state" where
  "fail jm name reason st = report_status name (Failed (jm name) reason) st"

definition complete ::
  "(pystr \<Rightarrow> pystr option) \<Rightarrow> pystr \<Rightarrow> nat \<Rightarrow> pystr option \<Rightarrow> job_state \<Rightarrow> job_state" where
  "complete jm name chunk_count note st =
     report_status name (Completed (jm name) chunk_count note) st"

text \<open>The three reasons of \<open>_fail\<close>, Chinese literals in the source.\<close>

definition REASON_NOT_FOUND :: pystr where
  "REASON_NOT_FOUND = [25991, 20214, 19981, 23384, 22312]"

definition REASON_UNSUPPORTED :: "pystr \<Rightarrow> pystr" where
  "REASON_UNSUPPORTED ext =
     [19981, 25903, 25345, 30340, 25991, 20214, 31867, 22411, 58, 32] @ py_or ext (asc ''unknown'')"

definition REASON_INDEX_FAILED :: pystr where
  "REASON_INDEX_FAILED = [32034, 24341, 26500, 24314, 22833, 36133]"

text \<open>\<open>d[key] = value\<close> on a dictionary kept in insertion order.\<close>

fun dict_set :: "('k \<times> 'v) list \<Rightarrow> 'k \<Rightarrow> 'v \<Rightarrow> ('k \<times> 'v) list" where
  "dict_set [] key v = [(key, v)]"
| "dict_set ((k, x) # d) key v = (if k = key then (k, v) # d else (k, x) # dict_set d key v)"

text \<open>
  The first loop: a missing document and an unsupported extension are reported as
  failed and skipped; any other exception of the storage leaves the job.
\<close>

fun resolve_docs ::
  "job_env \<Rightarrow> (pystr \<Rightarrow> pystr option) \<Rightarrow> pystr list \<Rightarrow> (pystr \<times> document) list \<Rightarrow> job_state
     \<Rightarrow> (exn + (pystr \<times> document) list) \<times> job_state" where
  "resolve_docs env jm [] requested st = (Inr requested, st)"
| "resolve_docs env jm (name # rest) requested st =
     (case get_document env name of
        Inl (FileNotFoundError m) \<Rightarrow>
          resolve_docs env jm rest requested (fail jm name REASON_NOT_FOUND st)
      | Inl e \<Rightarrow> (Inl e, st)
      | Inr doc \<Rightarrow>
          (let ext = py_lower (doc_ext doc)
           in if ext \<notin> set ALLOWED_DOC_EXTS
              then resolve_docs env jm rest requested (fail jm name (REASON_UNSUPPORTED ext) st)
              else resolve_docs env jm rest (dict_set requested name doc) st))"

text \<open>The loop that files each chunk under its source, when the source was requested.\<close>

fun group_chunks ::
  "(pystr \<times> DocumentChunk list) list \<Rightarrow> DocumentChunk list
     \<Rightarrow> (pystr \<times> DocumentChunk list) list" where
  "group_chunks m [] = m"
| "group_chunks m (c # cs) =
     group_chunks (map (\<lambda>(n, cl). if n = dc_source c then (n, cl @ [c]) else (n, cl)) m) cs"

text \<open>
  \<open>PGVectorStore.delete_documents\<close> and \<open>upsert_documents\<close>. The upsert embeds first, so
  a failing embedding leaves the table as it was; it then deletes the rows of the named
  documents and inserts the new rows, replacing a row with the same chunk id.
\<close>

definition delete_documents ::
  "pystr list \<Rightarrow> (DocumentChunk \<times> vec) list \<Rightarrow> (DocumentChunk \<times> vec) list \<times> nat" where
  "delete_documents doc_names idx =
     (let targets = filter (\<lambda>n. n \<noteq> []) doc_names
      in if targets = [] then (idx, 0)
         else (filter (\<lambda>r. dc_source (fst r) \<notin> set targets) idx,
               length (filter (\<lambda>r. dc_source (fst r) \<in> set targets) idx)))"

definition upsert_documents ::
  "job_env \<Rightarrow> (pystr \<times> DocumentChunk list) list \<Rightarrow> (DocumentChunk \<times> vec) list
     \<Rightarrow> exn + (DocumentChunk \<times> vec) list" where
  "upsert_documents env chunk_map idx =
     (let kept = filter (\<lambda>(n, cl). n \<noteq> [] \<and> cl \<noteq> []) chunk_map;
          targets = map fst kept;
          ordered = concat (map snd kept)
      in if ordered = [] then Inr idx
         else
           (case embed_texts env (map dc_text ordered) of
              Inl e \<Rightarrow> Inl e
            | Inr embeddings \<Rightarrow>
                (let rows = zip ordered embeddings
                 in if \<not> distinct (map (\<lambda>r. dc_id (fst r)) rows)
                    then Inl (Exception (asc ''CardinalityViolation''))
                    else Inr (filter (\<lambda>r. dc_id (fst r) \<notin> set (map (\<lambda>r. dc_id (fst r)) rows))
                                (filter (\<lambda>r. dc_source (fst r) \<notin> set targets) idx)
                              @ rows))))"

text \<open>The loop over \<open>doc_chunk_map\<close> that stores the chunk ids of each document.\<close>

fun update_all_refs ::
  "job_env \<Rightarrow> (pystr \<times> DocumentChunk list) list \<Rightarrow> job_state \<Rightarrow> exn option \<times> job_state" where
  "update_all_refs env [] st = (None, st)"
| "update_all_refs env ((name, cl) # rest) st =
     (case refs_fault env name of
        Some e \<Rightarrow> (Some e, st)
      | None \<Rightarrow>
          update_all_refs env rest (st\<lparr>vector_refs := (vector_refs st)(name \<mapsto> map dc_id cl)\<rparr>))"

text \<open>
  The changes of the vector table inside the \<open>try\<close> block: the documents with chunks
  are upserted, then the documents without chunks are deleted.
\<close>

definition doc_chunk_map_of ::
  "(pystr \<times> document) list \<Rightarrow> DocumentChunk list \<Rightarrow> (pystr \<times> DocumentChunk list) list" where
  "doc_chunk_map_of requested chunks = group_chunks (map (\<lambda>(n, d). (n, [])) requested) chunks"

definition write_index ::
  "job_env \<Rightarrow> (pystr \<times> DocumentChunk list) list \<Rightarrow> (DocumentChunk \<times> vec) list
     \<Rightarrow> exn + (DocumentChunk \<times> vec) list" where
  "write_index env doc_chunk_map idx =
     (let upsert_payload = filter (\<lambda>(n, cl). cl \<noteq> []) doc_chunk_map
      in case (if upsert_payload \<noteq> [] then upsert_documents env upsert_payload idx
               else Inr idx) of
           Inl e \<Rightarrow> Inl e
         | Inr idx1 \<Rightarrow>
             (let empty_docs = map fst (filter (\<lambda>(n, cl). cl = []) doc_chunk_map)
              in Inr (if empty_docs \<noteq> [] then fst (delete_documents empty_docs idx1)
                      else idx1)))"

text \<open>
  The \<open>try\<close> block under the lock: \<open>None\<close> is a loader that does not return,
  \<open>Inl e\<close> an exception, with the state the block had reached.
\<close>

definition index_section ::
  "job_env \<Rightarrow> Settings \<Rightarrow> (pystr \<times> document) list \<Rightarrow> job_state
     \<Rightarrow> ((exn + (pystr \<times> DocumentChunk list) list) \<times> job_state) option" where
  "index_section env settings requested st =
     (case load_documents (job_libs env) (map snd requested) (chunk_size settings)
             (chunk_overlap settings) (chunk_overlap_ratio settings) of
        None \<Rightarrow> None
      | Some (Inl e) \<Rightarrow> Some (Inl e, st)
      | Some (Inr chunks) \<Rightarrow>
          (let doc_chunk_map = doc_chunk_map_of requested chunks
           in case write_index env doc_chunk_map (index st) of
                Inl e \<Rightarrow> Some (Inl e, st)
              | Inr idx2 \<Rightarrow>
                  (case update_all_refs env doc_chunk_map (st\<lparr>index := idx2\<rparr>) of
                     (Some e, st') \<Rightarrow> Some (Inl e, st')
                   | (None, st') \<Rightarrow> Some (Inr doc_chunk_map, st'))))"

text \<open>The loops that report every requested document failed, or each one completed.\<close>

fun fail_all ::
  "(pystr \<Rightarrow> pystr option) \<Rightarrow> pystr list \<Rightarrow> job_state \<Rightarrow> job_state" where
  "fail_all jm [] st = st"
| "fail_all jm (name # rest) st = fail_all jm rest (fail jm name REASON_INDEX_FAILED st)"

fun complete_all ::
  "(pystr \<Rightarrow> pystr option) \<Rightarrow> (pystr \<times> DocumentChunk list) list \<Rightarrow> job_state \<Rightarrow> job_state" where
  "complete_all jm [] st = st"
| "complete_all jm ((name, cl) # rest) st =
     complete_all jm rest
       (if length cl > 0
        then complete jm name (length cl) None (st\<lparr>doc_uploads := Suc (doc_uploads st)\<rparr>)
        else complete jm name 0 (Some (asc ''no_chunks'')) st)"

text \<open>
  \<open>_run_vectorize_job\<close>: \<open>None\<close> is a job that does not return; otherwise the exception
  that left the job, if any, and the state it leaves.
\<close>

definition run_vectorize_job ::
  "job_env \<Rightarrow> Settings \<Rightarrow> entry list \<Rightarrow> job_state \<Rightarrow> (exn option \<times> job_state) option" where
  "run_vectorize_job env settings entries st =
     (let filenames = filenames_of entries
      in if filenames = [] then Some (None, st)
         else
           (case resolve_docs env (job_map entries) filenames [] st of
              (Inl e, st1) \<Rightarrow> Some (Some e, st1)
            | (Inr requested, st1) \<Rightarrow>
                if requested = [] then Some (None, st1)
                else
                  (case index_section env settings requested st1 of
                     None \<Rightarrow> None
                   | Some (Inl e, st2) \<Rightarrow>
                       Some (None, fail_all (job_map entries) (map fst requested) st2)
                   | Some (Inr doc_chunk_map, st2) \<Rightarrow>
                       Some (None, complete_all (job_map entries) doc_chunk_map st2))))"

text \<open>The last status reported for a document.\<close>

definition final_status :: "job_state \<Rightarrow> pystr \<Rightarrow> report option" where
  "final_status st name =
     (case filter (\<lambda>(n, r). n = name) (statuses st) of
        [] \<Rightarrow> None
      | x # xs \<Rightarrow> Some (snd (last (x # xs))))"

text \<open>
  Example batch: \<open>a.txt\<close> holds \<open>hello\<close>, \<open>b.txt\<close> holds three blanks and so gives no
  chunk; the vector table still holds a row of an earlier version of \<open>b.txt\<close>. One
  environment embeds every text, the other one's embedding backend raises.
\<close>

definition doc_a :: document where
  "doc_a = \<lparr>doc_name = asc ''a.txt'', doc_content = Some (asc ''hello''), doc_ext = asc ''.txt''\<rparr>"

definition doc_b :: document where
  "doc_b = \<lparr>doc_name = asc ''b.txt'', doc_content = Some (asc ''   ''), doc_ext = asc ''.txt''\<rparr>"

definition chunk_a :: DocumentChunk where
  "chunk_a = make_chunk (asc ''a'') (asc ''a.txt'') (asc ''.txt'') (0, asc ''hello'')"

definition stale_row :: "DocumentChunk \<times> vec" where
  "stale_row =
     (\<lparr>dc_id = asc ''b-0'', dc_text = asc ''old'', dc_source = asc ''b.txt'',
       dc_source_type = asc ''file'', dc_url = None, dc_created_at = None, dc_metadata = []\<rparr>,
      [1])"

definition stale_state :: job_state where
  "stale_state =
     \<lparr>index = [stale_row], statuses = [], events = [], vector_refs = Map.empty, doc_uploads = 0\<rparr>"

definition good_env :: job_env where
  "good_env =
     \<lparr>get_document = (\<lambda>n. if n = asc ''a.txt'' then Inr doc_a
                           else if n = asc ''b.txt'' then Inr doc_b
                           else Inl (FileNotFoundError n)),
      job_libs = example_libs,
      embed_texts = (\<lambda>texts. Inr (map (\<lambda>t. [1]) texts)),
      refs_fault = (\<lambda>n. None)\<rparr>"

definition failing_env :: job_env where
  "failing_env = good_env\<lparr>embed_texts := (\<lambda>texts. Inl (Exception (asc ''backend down'')))\<rparr>"

definition example_entries :: "entry list" where
  "example_entries =
     [\<lparr>filename = asc ''a.txt'', job_id = Some (asc ''j1'')\<rparr>,
      \<lparr>filename = asc ''b.txt'', job_id = Some (asc ''j2'')\<rparr>]"

definition example_requested :: "(pystr \<times> document) list" where
  "example_requested = [(asc ''a.txt'', doc_a), (asc ''b.txt'', doc_b)]"

text \<open>The chunk map of the example batch and the state its shared section leaves.\<close>

definition example_map :: "(pystr \<times> DocumentChunk list) list" where
  "example_map = [(asc ''a.txt'', [chunk_a]), (asc ''b.txt'', [])]"

definition indexed_state :: job_state where
  "indexed_state =
     stale_state\<lparr>index := [(chunk_a, [1])],
                 vector_refs := [asc ''a.txt'' \<mapsto> [dc_id chunk_a], asc ''b.txt'' \<mapsto> []]\<rparr>"

text \<open>The settings of the example with a fixed overlap of 80 characters.\<close>

definition fixed_settings :: Settings where
  "fixed_settings = example_settings\<lparr>chunk_overlap := 80\<rparr>"

text \<open>
  A batch that asks for \<open>b.txt\<close> under a name with a leading blank: the storage trims the
  name and answers with the document stored as \<open>b.txt\<close>.
\<close>

definition spaced_env :: job_env where
  "spaced_env = good_env\<lparr>get_document := (\<lambda>n. if n = 32 # asc ''b.txt'' then Inr doc_b
                                                else Inl (FileNotFoundError n))\<rparr>"

definition spaced_entries :: "entry list" where
  "spaced_entries = [\<lparr>filename = 32 # asc ''b.txt'', job_id = Some (asc ''j2'')\<rparr>]"

section \<open>Properties of the chunker\<close>

lemma chunk_loop_windows:
  assumes "0 < s" "0 \<le> ov" "ov < s"
  shows "0 \<le> start \<Longrightarrow> start < int (length text) \<Longrightarrow>
     \<exists>ws. chunk_loop text s ov start chunks
            = Some (chunks @ map (\<lambda>(b, e). py_slice text b e) ws)
        \<and> window_chain s ov (int (length text)) start ws"
proof (induction "nat (int (length text) - start)" arbitrary: start chunks rule: less_induct)
  case less
  let ?L = "int (length text)"
  let ?stop = "min (start + s) ?L"
  show ?case
  proof (cases "?stop = ?L")
    case True
    have "chunk_loop text s ov start chunks = Some (chunks @ [py_slice text start ?L])"
      using less.prems True by (subst chunk_loop.simps) (simp add: Let_def)
    moreover have "window_chain s ov ?L start [(start, ?L)]"
      using less.prems True assms by simp
    ultimately show ?thesis
      by (intro exI[of _ "[(start, ?L)]"]) simp
  next
    case False
    then have stop: "?stop = start + s" "start + s < ?L"
      by (simp_all add: min_def split: if_splits)
    let ?start' = "start + s - ov"
    let ?chunks' = "chunks @ [py_slice text start (start + s)]"
    have step: "chunk_loop text s ov start chunks = chunk_loop text s ov ?start' ?chunks'"
      using less.prems stop False by (subst chunk_loop.simps) (simp add: Let_def)
    have "nat (?L - ?start') < nat (?L - start)"
      using assms less.prems stop by simp
    moreover have "0 \<le> ?start'" "?start' < ?L"
      using assms less.prems stop by simp_all
    ultimately obtain ws where ws:
      "chunk_loop text s ov ?start' ?chunks'
         = Some (?chunks' @ map (\<lambda>(b, e). py_slice text b e) ws)"
      "window_chain s ov ?L ?start' ws"
      using less.hyps[of ?start' ?chunks'] by blast
    from ws(2) obtain w ws' where "ws = w # ws'"
      by (cases ws) auto
    with ws(2) have "window_chain s ov ?L start ((start, start + s) # ws)"
      using assms less.prems stop by simp
    with ws(1) step show ?thesis
      by (intro exI[of _ "(start, start + s) # ws"]) simp
  qed
qed

lemma window_chain_covers:
  "window_chain s ov L a ws \<Longrightarrow> 0 \<le> ov \<Longrightarrow> a \<le> i \<Longrightarrow> i < L \<Longrightarrow>
     \<exists>(b, e) \<in> set ws. b \<le> i \<and> i < e"
proof (induction s ov L a ws rule: window_chain.induct)
  case (1 s ov L a)
  then show ?case by simp
next
  case (2 s ov L a b e)
  then show ?case by simp
next
  case (3 s ov L a b e w ws)
  show ?case
  proof (cases "i < e")
    case True
    with 3 show ?thesis by simp
  next
    case False
    with 3 have "\<exists>(b, e) \<in> set (w # ws). b \<le> i \<and> i < e" by simp
    then show ?thesis by auto
  qed
qed

text \<open>
  C1. For a chunk size \<open>s > 0\<close>, an overlap \<open>0 \<le> ov < s\<close> and a non-empty text of length
  \<open>L\<close>, \<open>chunk_text\<close> terminates, and what it returns is the sequence of windows
  \<open>text[b:e]\<close> of a chain of bounds: the first window starts at 0, every window is
  non-empty and at most \<open>s\<close> long, each later window starts exactly \<open>ov\<close> characters before
  the end of the one before it, the last window ends at \<open>L\<close>, and every position of the
  text lies in some window.
\<close>

theorem chunk_text_windows:
  assumes "0 < s" "0 \<le> ov" "ov < s" "text \<noteq> []"
  shows "\<exists>ws. chunk_text text s ov = Some (map (\<lambda>(b, e). py_slice text b e) ws)
           \<and> window_chain s ov (int (length text)) 0 ws
           \<and> (\<forall>i. 0 \<le> i \<and> i < int (length text) \<longrightarrow> (\<exists>(b, e) \<in> set ws. b \<le> i \<and> i < e))"
proof -
  from assms(4) have "(0::int) < int (length text)" by simp
  with chunk_loop_windows[OF assms(1-3), of 0 "text" "[]"]
  obtain ws where ws: "chunk_loop text s ov 0 [] = Some (map (\<lambda>(b, e). py_slice text b e) ws)"
    "window_chain s ov (int (length text)) 0 ws"
    by auto
  from ws(2) assms(2) have "\<forall>i. 0 \<le> i \<and> i < int (length text) \<longrightarrow> (\<exists>(b, e) \<in> set ws. b \<le> i \<and> i < e)"
    using window_chain_covers by blast
  with ws show ?thesis
    unfolding chunk_text_def by blast
qed

theorem chunk_text_windows_witness:
  "(0::int) < 3 \<and> (0::int) \<le> 1 \<and> (1::int) < 3 \<and> ''abcdefg'' \<noteq> []
   \<and> (\<exists>ws. chunk_text ''abcdefg'' 3 1 = Some (map (\<lambda>(b, e). py_slice ''abcdefg'' b e) ws)
           \<and> window_chain 3 1 (int (length ''abcdefg'')) 0 ws
           \<and> (\<forall>i. 0 \<le> i \<and> i < int (length ''abcdefg'') \<longrightarrow> (\<exists>(b, e) \<in> set ws. b \<le> i \<and> i < e)))"
  using chunk_text_windows[of 3 1 "''abcdefg''"] by simp

section \<open>Properties of the context builder\<close>

lemma build_context_loop_prefix:
  "\<exists>n \<le> length chunks.
     build_context_loop chunks m parts cur = parts @ map snippet_of (take n chunks)
   \<and> (0 < n \<longrightarrow> cur + int (length (concat (map snippet_of (take n chunks)))) \<le> m)
   \<and> (n < length chunks \<longrightarrow>
        cur + int (length (concat (map snippet_of (take (Suc n) chunks)))) > m)"
proof (induction chunks arbitrary: parts cur)
  case Nil
  then show ?case by simp
next
  case (Cons item rest)
  show ?case
  proof (cases "cur + int (length (snippet_of item)) > m")
    case True
    then show ?thesis by (intro exI[of _ 0]) simp
  next
    case False
    from Cons.IH[of "parts @ [snippet_of item]" "cur + int (length (snippet_of item))"]
    obtain n where n: "n \<le> length rest"
      "build_context_loop rest m (parts @ [snippet_of item]) (cur + int (length (snippet_of item)))
         = (parts @ [snippet_of item]) @ map snippet_of (take n rest)"
      "0 < n \<longrightarrow> cur + int (length (snippet_of item))
          + int (length (concat (map snippet_of (take n rest)))) \<le> m"
      "n < length rest \<longrightarrow> cur + int (length (snippet_of item))
          + int (length (concat (map snippet_of (take (Suc n) rest)))) > m"
      by auto
    with False show ?thesis
      by (intro exI[of _ "Suc n"]) (auto simp: Let_def)
  qed
qed

text \<open>
  What \<open>_build_context\<close> returns: the lines of an order-preserving prefix of the chunks,
  none of them truncated, joined by a newline. The prefix is the longest one whose lines
  have a summed length of at most \<open>max_chars\<close>; the newlines that the join puts between
  the lines are not part of that sum.
\<close>

lemma build_context_joined_prefix:
  "\<exists>n \<le> length chunks.
     build_context chunks max_chars = str_join [10] (map snippet_of (take n chunks))
   \<and> (0 < n \<longrightarrow> int (length (concat (map snippet_of (take n chunks)))) \<le> max_chars)
   \<and> (n < length chunks \<longrightarrow>
        int (length (concat (map snippet_of (take (Suc n) chunks)))) > max_chars)"
proof -
  from build_context_loop_prefix[of chunks max_chars "[]" 0]
  obtain n where "n \<le> length chunks"
    "build_context_loop chunks max_chars [] 0 = map snippet_of (take n chunks)"
    "0 < n \<longrightarrow> int (length (concat (map snippet_of (take n chunks)))) \<le> max_chars"
    "n < length chunks \<longrightarrow>
        int (length (concat (map snippet_of (take (Suc n) chunks)))) > max_chars"
    by auto
  then show ?thesis
    unfolding build_context_def by (intro exI[of _ n]) simp
qed

text \<open>
  C8 fails on \<open>_build_context\<close>. With two chunks whose lines have 9 characters each and
  \<open>max_chars = 18\<close>, the loop accepts both lines (\<open>current_len\<close> reaches 18, which is not
  above \<open>max_chars\<close>), and \<^verbatim>\<open>"\n".join(parts)\<close> puts one more newline between them:
  the text returned is not the concatenation of the two lines, and its 19 characters
  exceed \<open>max_chars\<close>. The loop counts every line with its own final newline and stops
  before \<open>max_chars\<close> is passed, but the separators of the join are counted nowhere.
\<close>

theorem build_context_exceeds_max_chars:
  "build_context [example_hit, example_hit] 18
     = snippet_of example_hit @ [10] @ snippet_of example_hit
   \<and> build_context [example_hit, example_hit] 18
       \<noteq> concat (map snippet_of [example_hit, example_hit])
   \<and> length (snippet_of example_hit) = 9
   \<and> length (build_context [example_hit, example_hit] 18) = 19
   \<and> \<not> int (length (build_context [example_hit, example_hit] 18)) \<le> 18"
  by (simp add: build_context_def snippet_of_def example_hit_def asc_def Let_def)

section \<open>Properties of the document loader\<close>

lemma load_loop_per_document:
  "load_loop lb cs eo docs acc = Some (Inr out) \<Longrightarrow>
     \<exists>per. list_all2 (\<lambda>d p. doc_chunks lb cs eo d = Some (Inr p)) docs per
        \<and> out = acc @ concat per"
proof (induction docs arbitrary: acc)
  case Nil
  then show ?case by simp
next
  case (Cons doc rest)
  from Cons.prems obtain p where p: "doc_chunks lb cs eo doc = Some (Inr p)"
    "load_loop lb cs eo rest (acc @ p) = Some (Inr out)"
    by (auto split: option.splits sum.splits)
  from Cons.IH[OF p(2)] obtain per where
    "list_all2 (\<lambda>d p. doc_chunks lb cs eo d = Some (Inr p)) rest per" "out = (acc @ p) @ concat per"
    by blast
  with p(1) show ?case
    by (intro exI[of _ "p # per"]) simp
qed

lemma map_snd_enumerate_fun:
  "map (\<lambda>x. f (snd x)) (enumerate n ws) = map f ws"
  by (induction ws arbitrary: n) simp_all

lemma doc_chunks_accepted:
  assumes "doc_chunks lb cs eo doc = Some (Inr p)" "c \<in> set p"
  shows "\<exists>content text windows w.
           doc_content doc = Some content
         \<and> extract_text_from_bytes lb content (effective_ext lb doc) = Inr text
         \<and> py_strip text \<noteq> []
         \<and> chunk_text text cs eo = Some windows
         \<and> w \<in> set windows \<and> dc_text c = py_strip w"
proof -
  from assms obtain content body windows base_id where acc:
    "doc_content doc = Some content"
    "extract_text_from_bytes lb content (effective_ext lb doc) = Inr body"
    "py_strip body \<noteq> []" "chunk_text body cs eo = Some windows"
    "p = map (make_chunk base_id (doc_name doc) (effective_ext lb doc)) (enumerate 0 windows)"
    by (auto simp: doc_chunks_def Let_def split: option.splits if_splits sum.splits)
  from assms(2) acc(5) have
    "c \<in> make_chunk base_id (doc_name doc) (effective_ext lb doc) ` set (enumerate 0 windows)"
    by simp
  then obtain q where q: "q \<in> set (enumerate 0 windows)"
    "c = make_chunk base_id (doc_name doc) (effective_ext lb doc) q"
    by blast
  from q(1) have "snd q \<in> snd ` set (enumerate 0 windows)"
    by (rule imageI)
  also have "snd ` set (enumerate 0 windows) = set windows"
    by (metis set_map map_snd_enumerate)
  finally have "snd q \<in> set windows" .
  moreover from q(2) have "dc_text c = py_strip (snd q)"
    by (simp add: make_chunk_def)
  ultimately show ?thesis
    using acc(1-4) by blast
qed

lemma doc_chunks_all_windows:
  assumes "doc_name doc \<noteq> []" "doc_content doc = Some content"
    "effective_ext lb doc \<in> set ALLOWED_DOC_EXTS"
    "extract_text_from_bytes lb content (effective_ext lb doc) = Inr text"
    "py_strip text \<noteq> []" "chunk_text text cs eo = Some windows"
  shows "\<exists>p. doc_chunks lb cs eo doc = Some (Inr p) \<and> map dc_text p = map py_strip windows
           \<and> (\<forall>c \<in> set p. dc_source c = doc_name doc)"
  using assms
  by (auto simp: doc_chunks_def Let_def make_chunk_def comp_def map_snd_enumerate_fun)

lemma example_load:
  "load_documents example_libs [example_doc] 2 1 0.15 = Some (Inr example_out)"
  by (simp add: load_documents_def effective_overlap_def doc_chunks_def effective_ext_def
        example_libs_def example_doc_def example_out_def ALLOWED_DOC_EXTS_def
        extract_text_from_bytes_def py_or_def py_lower_def py_strip_def is_space_def asc_def
        chunk_text_def chunk_loop.simps py_slice_def slice_bound_def Let_def)

text \<open>
  C9, as amended. When \<open>load_documents\<close> returns, every chunk it produced carries the
  trimmed text of one window of a document whose whole extracted text is non-empty after
  trimming; and every window of every such accepted document is emitted as a chunk with
  the trimmed window as its text. A window that holds only whitespace is therefore emitted
  with an empty text, not dropped: only a document that is blank as a whole is skipped.
\<close>

theorem load_documents_trimmed_windows:
  assumes "load_documents lb documents csize overlap ratio = Some (Inr out)"
  shows "(\<forall>c \<in> set out. \<exists>doc \<in> set documents. \<exists>content text windows w.
            doc_content doc = Some content
          \<and> extract_text_from_bytes lb content (effective_ext lb doc) = Inr text
          \<and> py_strip text \<noteq> []
          \<and> chunk_text text csize (effective_overlap csize overlap ratio) = Some windows
          \<and> w \<in> set windows \<and> dc_text c = py_strip w)
       \<and> (\<forall>doc \<in> set documents. \<forall>content text windows.
            doc_name doc \<noteq> [] \<and> doc_content doc = Some content
          \<and> effective_ext lb doc \<in> set ALLOWED_DOC_EXTS
          \<and> extract_text_from_bytes lb content (effective_ext lb doc) = Inr text
          \<and> py_strip text \<noteq> []
          \<and> chunk_text text csize (effective_overlap csize overlap ratio) = Some windows
          \<longrightarrow> (\<forall>w \<in> set windows. \<exists>c \<in> set out. dc_text c = py_strip w \<and> dc_source c = doc_name doc))"
proof -
  let ?eo = "effective_overlap csize overlap ratio"
  from assms obtain per where per:
    "list_all2 (\<lambda>d p. doc_chunks lb csize ?eo d = Some (Inr p)) documents per"
    "out = concat per"
    unfolding load_documents_def using load_loop_per_document by fastforce
  have fwd: "\<exists>doc \<in> set documents. doc_chunks lb csize ?eo doc = Some (Inr p)"
    if "p \<in> set per" for p
  proof -
    from that obtain i where i: "i < length per" "p = per ! i"
      by (auto simp: in_set_conv_nth)
    from per(1) i(1) have "doc_chunks lb csize ?eo (documents ! i) = Some (Inr (per ! i))"
      by (rule list_all2_nthD2)
    moreover from per(1) i(1) have "documents ! i \<in> set documents"
      by (simp add: list_all2_lengthD)
    ultimately show ?thesis using i(2) by blast
  qed
  have bwd: "\<exists>p \<in> set per. doc_chunks lb csize ?eo doc = Some (Inr p)"
    if "doc \<in> set documents" for doc
  proof -
    from that obtain i where i: "i < length documents" "doc = documents ! i"
      by (auto simp: in_set_conv_nth)
    from per(1) i(1) have "doc_chunks lb csize ?eo (documents ! i) = Some (Inr (per ! i))"
      by (rule list_all2_nthD)
    moreover from per(1) i(1) have "per ! i \<in> set per"
      by (simp add: list_all2_lengthD[symmetric])
    ultimately show ?thesis using i(2) by blast
  qed
  have one: "\<exists>doc \<in> set documents. \<exists>content body windows w.
            doc_content doc = Some content
          \<and> extract_text_from_bytes lb content (effective_ext lb doc) = Inr body
          \<and> py_strip body \<noteq> []
          \<and> chunk_text body csize ?eo = Some windows
          \<and> w \<in> set windows \<and> dc_text c = py_strip w" if "c \<in> set out" for c
  proof -
    from that per(2) obtain p where p: "p \<in> set per" "c \<in> set p" by auto
    from fwd[OF p(1)] obtain doc where doc: "doc \<in> set documents"
      "doc_chunks lb csize ?eo doc = Some (Inr p)" by blast
    from doc_chunks_accepted[OF doc(2) p(2)] doc(1) show ?thesis by blast
  qed
  have two: "\<exists>c \<in> set out. dc_text c = py_strip w \<and> dc_source c = doc_name doc"
    if "doc \<in> set documents" "doc_name doc \<noteq> []" "doc_content doc = Some content"
      "effective_ext lb doc \<in> set ALLOWED_DOC_EXTS"
      "extract_text_from_bytes lb content (effective_ext lb doc) = Inr body"
      "py_strip body \<noteq> []" "chunk_text body csize ?eo = Some windows" "w \<in> set windows"
    for doc content body windows w
  proof -
    from doc_chunks_all_windows[OF that(2-7)] obtain p where p:
      "doc_chunks lb csize ?eo doc = Some (Inr p)" "map dc_text p = map py_strip windows"
      "\<forall>c \<in> set p. dc_source c = doc_name doc" by blast
    from bwd[OF that(1)] p(1) have "p \<in> set per" by auto
    from that(8) have "py_strip w \<in> set (map dc_text p)" unfolding p(2) by simp
    then obtain c where "c \<in> set p" "dc_text c = py_strip w" by auto
    with p(3) \<open>p \<in> set per\<close> per(2) show ?thesis by auto
  qed
  from one two show ?thesis by blast
qed

text \<open>
  C9 as stated fails: the document \<open>a.txt\<close> with the text \<open>a\<close> and three blanks, chunk
  size 2 and overlap 1, gives three chunks, and the texts of the second and the third are
  empty.
\<close>

theorem load_documents_blank_chunk:
  "map_option (map_sum id (map dc_text)) (load_documents example_libs [example_doc] 2 1 0.15)
     = Some (Inr [asc ''a'', [], []])"
  unfolding example_load
  by (simp add: example_out_def make_chunk_def py_strip_def is_space_def asc_def)


theorem load_documents_trimmed_windows_witness:
  "load_documents example_libs [example_doc] 2 1 0.15 = Some (Inr example_out)
   \<and> (\<exists>doc \<in> set [example_doc]. \<exists>content text windows w.
            doc_content doc = Some content
          \<and> extract_text_from_bytes example_libs content (effective_ext example_libs doc) = Inr text
          \<and> py_strip text \<noteq> []
          \<and> chunk_text text 2 (effective_overlap 2 1 0.15) = Some windows
          \<and> w \<in> set windows \<and> dc_text (example_out ! 1) = py_strip w)
   \<and> (\<exists>c \<in> set example_out.
          dc_text c = py_strip (asc ''  '') \<and> dc_source c = doc_name example_doc)"
proof -
  note inst = load_documents_trimmed_windows[OF example_load]
  have "example_out ! 1 \<in> set example_out"
    by (simp add: example_out_def)
  with inst have first: "\<exists>doc \<in> set [example_doc]. \<exists>content text windows w.
            doc_content doc = Some content
          \<and> extract_text_from_bytes example_libs content (effective_ext example_libs doc) = Inr text
          \<and> py_strip text \<noteq> []
          \<and> chunk_text text 2 (effective_overlap 2 1 0.15) = Some windows
          \<and> w \<in> set windows \<and> dc_text (example_out ! 1) = py_strip w"
    by blast
  have ext: "effective_ext example_libs example_doc = asc ''.txt''"
    by (simp add: effective_ext_def example_libs_def example_doc_def py_or_def py_lower_def asc_def)
  have acc: "doc_name example_doc \<noteq> []" "doc_content example_doc = Some (asc ''a   '')"
    "effective_ext example_libs example_doc \<in> set ALLOWED_DOC_EXTS"
    "extract_text_from_bytes example_libs (asc ''a   '') (effective_ext example_libs example_doc)
       = Inr (asc ''a   '')"
    "py_strip (asc ''a   '') \<noteq> []"
    unfolding ext
    by (simp_all add: example_doc_def example_libs_def ALLOWED_DOC_EXTS_def
          extract_text_from_bytes_def py_lower_def py_strip_def is_space_def asc_def)
  have win: "chunk_text (asc ''a   '') 2 (effective_overlap 2 1 0.15)
               = Some [asc ''a '', asc ''  '', asc ''  '']"
    by (simp add: effective_overlap_def chunk_text_def chunk_loop.simps py_slice_def
          slice_bound_def asc_def Let_def)
  have "example_doc \<in> set [example_doc]" "asc ''  '' \<in> set [asc ''a '', asc ''  '', asc ''  '']"
    by simp_all
  with inst acc win have second: "\<exists>c \<in> set example_out.
      dc_text c = py_strip (asc ''  '') \<and> dc_source c = doc_name example_doc"
    by blast
  from example_load first second show ?thesis by blast
qed

section \<open>Properties of the retrieval orchestrator\<close>

lemma py_slice_prefix: "0 \<le> k \<Longrightarrow> py_slice xs 0 k = take (nat k) xs"
  by (simp add: py_slice_def slice_bound_def Let_def min_def)

text \<open>
  C3. When a reranker is configured and its \<open>rerank\<close> call raises, \<open>retrieve\<close> returns
  normally: the result is \<open>hits[:k]\<close>, the recall results of the vector index cut to the
  effective \<open>top_k\<close> (\<open>k\<close>, the request's value or the configured default), which for
  \<open>k \<ge> 0\<close> is the first \<open>k\<close> hits in their recall order.
\<close>

theorem retrieve_reranker_fallback:
  assumes "rerank = Some r"
    and "k = int_or topk (top_k settings)"
    and "search qry (max k (rerank_top_n settings)) = Inr hits"
    and "r qry hits k = Inl e"
  shows "retrieve settings search rerank qry topk = Inr (py_slice hits 0 k)
       \<and> (0 \<le> k \<longrightarrow> retrieve settings search rerank qry topk = Inr (take (nat k) hits))"
  using assms by (simp add: retrieve_def Let_def py_slice_prefix)

theorem retrieve_reranker_fallback_witness:
  "retrieve example_settings (\<lambda>q n. Inr example_hits) (Some (\<lambda>q hs n. Inl (Exception (asc ''timeout''))))
      (asc ''q'') (Some 2)
     = Inr [example_hit\<lparr>score := 0.9\<rparr>, example_hit\<lparr>score := 0.5\<rparr>]"
proof -
  have k: "(2::int) = int_or (Some 2) (top_k example_settings)"
    by (simp add: int_or_def)
  have "retrieve example_settings (\<lambda>q n. Inr example_hits)
          (Some (\<lambda>q hs n. Inl (Exception (asc ''timeout'')))) (asc ''q'') (Some 2)
        = Inr (take (nat 2) example_hits)"
    using retrieve_reranker_fallback[where rerank = "Some (\<lambda>q hs n. Inl (Exception (asc ''timeout'')))"
        and r = "\<lambda>q hs n. Inl (Exception (asc ''timeout''))" and k = 2 and topk = "Some 2"
        and settings = example_settings and search = "\<lambda>q n. Inr example_hits"
        and qry = "asc ''q''" and hits = example_hits and e = "Exception (asc ''timeout'')"]
      k
    by (simp add: py_slice_prefix)
  then show ?thesis
    by (simp add: example_hits_def numeral_2_eq_2)
qed

section \<open>Properties of the agent orchestrator\<close>

lemma relevance_threshold_range:
  "0 \<le> relevance_threshold settings \<and> relevance_threshold settings \<le> 1"
  by (simp add: relevance_threshold_def)

lemma max_default_Max:
  "max_default values d = (if values = [] then d else Max (set values))"
  by (cases "values") (simp_all add: max_default_def Max.set_eq_fold del: set_simps)

lemma apply_relevance_threshold_best:
  "snd (apply_relevance_threshold settings hits)
     = (if hits = [] then 0 else Max (score ` set hits))"
  by (simp add: apply_relevance_threshold_def Let_def max_default_Max)

lemma apply_relevance_threshold_empty:
  assumes "0 < relevance_threshold settings"
    and "\<forall>h \<in> set hits. score h < relevance_threshold settings"
  shows "fst (apply_relevance_threshold settings hits) = []"
  using assms by (auto simp: apply_relevance_threshold_def Let_def filter_empty_conv)

lemma handle_low_relevance:
  assumes "fst (apply_relevance_threshold settings hits) = []"
    and "cached settings c (cache_key dp req) = None"
    and "retrieve settings (index_search w) (reranker w) (query req) (req_top_k req) = Inr hits"
  shows "handle settings dp w c req
          = Inr ((\<lparr>answer = fallback_text dp (query req), sources = [],
                    latency_ms = Some 0\<rparr>, False),
                 store settings c (cache_key dp req)
                   \<lparr>answer = fallback_text dp (query req), sources = [],
                     latency_ms = Some 0\<rparr>)"
  using assms
  by (auto simp: handle_def Let_def build_low_relevance_response_def split: prod.splits)

lemma apply_relevance_threshold_exact:
  "apply_relevance_threshold settings hits
     = (if 0 < max 0 (min 1 (min_relevance settings))
        then filter (\<lambda>h. max 0 (min 1 (min_relevance settings)) \<le> score h) hits
        else hits,
        if hits = [] then 0 else Max (score ` set hits))"
  by (simp add: apply_relevance_threshold_def relevance_threshold_def Let_def max_default_Max
        not_less)

lemma handle_relevant:
  assumes "cached settings c (cache_key dp req) = None"
    and "retrieve settings (index_search w) (reranker w) (query req) (req_top_k req) = Inr hits"
    and "fst (apply_relevance_threshold settings hits) \<noteq> []"
    and "handle settings dp w c req = Inr ((resp, flag), c')"
  shows "sources resp = map attribution (fst (apply_relevance_threshold settings hits))
       \<and> \<not> flag"
  using assms
  by (auto simp: handle_def Let_def split: prod.splits sum.splits option.splits if_splits)

text \<open>
  C4. The relevance gate returns as best score the maximum of the scores of the hits (0
  when there is none), and what it compares the scores with is the configured threshold
  clamped to \<open>[0, 1]\<close>, \<open>t = max(0, min(1, min_relevance))\<close>: when \<open>t > 0\<close> it keeps
  exactly the hits that score at least \<open>t\<close>, in their order, and otherwise all of them.
  When \<open>t > 0\<close> and every hit scores below \<open>t\<close> (or there is no hit), the filtered set is
  empty, and a call of \<open>handle\<close> that is not answered from the cache and retrieves these
  hits returns the fallback answer with an empty list of sources and the cache-hit flag
  false. When some hit scores at least \<open>t\<close>, a call of \<open>handle\<close> that returns does not
  fall back: its sources are those of the hits the gate kept.
\<close>

theorem relevance_gate_fallback:
  "apply_relevance_threshold settings hits
     = (if 0 < max 0 (min 1 (min_relevance settings))
        then filter (\<lambda>h. max 0 (min 1 (min_relevance settings)) \<le> score h) hits
        else hits,
        if hits = [] then 0 else Max (score ` set hits))
   \<and> (0 < max 0 (min 1 (min_relevance settings))
        \<and> (\<forall>h \<in> set hits. score h < max 0 (min 1 (min_relevance settings)))
      \<longrightarrow> fst (apply_relevance_threshold settings hits) = []
        \<and> (cached settings c (cache_key dp req) = None
             \<and> retrieve settings (index_search w) (reranker w) (query req) (req_top_k req) = Inr hits
           \<longrightarrow> handle settings dp w c req
                 = Inr ((\<lparr>answer = fallback_text dp (query req), sources = [],
                           latency_ms = Some 0\<rparr>, False),
                        store settings c (cache_key dp req)
                          \<lparr>answer = fallback_text dp (query req), sources = [],
                            latency_ms = Some 0\<rparr>)))
   \<and> ((\<exists>h \<in> set hits. max 0 (min 1 (min_relevance settings)) \<le> score h)
        \<and> cached settings c (cache_key dp req) = None
        \<and> retrieve settings (index_search w) (reranker w) (query req) (req_top_k req) = Inr hits
        \<and> handle settings dp w c req = Inr ((resp, flag), c')
      \<longrightarrow> sources resp = map attribution (fst (apply_relevance_threshold settings hits))
        \<and> sources resp \<noteq> [] \<and> \<not> flag)"
proof (intro conjI impI)
  show "apply_relevance_threshold settings hits
     = (if 0 < max 0 (min 1 (min_relevance settings))
        then filter (\<lambda>h. max 0 (min 1 (min_relevance settings)) \<le> score h) hits
        else hits,
        if hits = [] then 0 else Max (score ` set hits))"
    by (rule apply_relevance_threshold_exact)
next
  assume low: "0 < max 0 (min 1 (min_relevance settings))
        \<and> (\<forall>h \<in> set hits. score h < max 0 (min 1 (min_relevance settings)))"
  then show empty: "fst (apply_relevance_threshold settings hits) = []"
    by (auto simp: apply_relevance_threshold_exact filter_empty_conv)
  assume "cached settings c (cache_key dp req) = None
             \<and> retrieve settings (index_search w) (reranker w) (query req) (req_top_k req) = Inr hits"
  with empty show "handle settings dp w c req
                 = Inr ((\<lparr>answer = fallback_text dp (query req), sources = [],
                           latency_ms = Some 0\<rparr>, False),
                        store settings c (cache_key dp req)
                          \<lparr>answer = fallback_text dp (query req), sources = [],
                            latency_ms = Some 0\<rparr>)"
    using handle_low_relevance by blast
next
  assume high: "(\<exists>h \<in> set hits. max 0 (min 1 (min_relevance settings)) \<le> score h)
        \<and> cached settings c (cache_key dp req) = None
        \<and> retrieve settings (index_search w) (reranker w) (query req) (req_top_k req) = Inr hits
        \<and> handle settings dp w c req = Inr ((resp, flag), c')"
  then have kept: "fst (apply_relevance_threshold settings hits) \<noteq> []"
    by (auto simp: apply_relevance_threshold_exact filter_empty_conv)
  from handle_relevant[OF _ _ kept] high
  have res: "sources resp = map attribution (fst (apply_relevance_threshold settings hits))
       \<and> \<not> flag"
    by blast
  then show "sources resp = map attribution (fst (apply_relevance_threshold settings hits))"
    by simp
  from res kept show "sources resp \<noteq> []"
    by simp
  from res show "\<not> flag"
    by simp
qed

lemma handle_caches:
  assumes "cache_enabled settings" "handle settings dp w c req = Inr ((resp, hit), c')"
  shows "c' (cache_key dp req) = Some resp"
  using assms
  by (auto simp: handle_def Let_def cached_def store_def
           split: option.splits sum.splits prod.splits if_splits)

text \<open>
  C10. The cache key is computed from the query text, \<open>top_k\<close> and \<open>max_tokens\<close> only:
  two requests that agree on them have the same key, whatever their session or
  streaming flag. With the cache enabled, after a call of \<open>handle\<close> that returned a
  response for the first request, a call for the second returns that response from the
  cache with the cache-hit flag true, whatever the index and the backends would answer.
\<close>

theorem cache_key_ignores_session:
  assumes "cache_enabled settings"
    and "query r1 = query r2" "req_top_k r1 = req_top_k r2" "max_tokens r1 = max_tokens r2"
    and "handle settings dp w1 c r1 = Inr ((resp, hit), c1)"
  shows "cache_key dp r1 = cache_key dp r2
       \<and> handle settings dp w2 c1 r2 = Inr ((resp, True), c1)"
proof -
  have key: "cache_key dp r1 = cache_key dp r2"
    using assms(2-4) by (simp add: cache_key_def)
  from handle_caches[OF assms(1,5)] key have "c1 (cache_key dp r2) = Some resp"
    by simp
  with assms(1) have "handle settings dp w2 c1 r2 = Inr ((resp, True), c1)"
    by (simp add: handle_def Let_def cached_def)
  with key show ?thesis by simp
qed

lemma example_threshold: "relevance_threshold example_settings = 0.35"
  by (simp add: relevance_threshold_def example_settings_def)

lemma example_fallback_text: "fallback_text example_deps (asc ''q'') = asc ''nothing on q''"
  by (simp add: fallback_text_def is_greeting_def example_deps_def py_strip_def is_space_def
        py_or_def py_lower_def asc_def Let_def)

lemma low_hits_below: "\<forall>h \<in> set low_hits. score h < relevance_threshold example_settings"
  unfolding example_threshold by (simp add: low_hits_def)

lemma low_retrieve:
  "retrieve example_settings (index_search low_world) (reranker low_world) (query example_req)
     (req_top_k example_req) = Inr low_hits"
  by (simp add: retrieve_def low_world_def Let_def)

lemma example_key: "cache_key example_deps example_req = asc ''q|None|None''"
  by (simp add: cache_key_def example_deps_def example_req_def fmt_opt_int_def asc_def)

lemma example_store: "store example_settings c key resp = c(key \<mapsto> resp)"
  by (simp add: store_def example_settings_def)

lemma example_query: "query example_req = asc ''q''"
  by (simp add: example_req_def)

lemma low_handle:
  "handle example_settings example_deps low_world Map.empty example_req
     = Inr ((fallback_resp, False), [asc ''q|None|None'' \<mapsto> fallback_resp])"
proof -
  have "fst (apply_relevance_threshold example_settings low_hits) = []"
    using apply_relevance_threshold_empty[OF _ low_hits_below] example_threshold by simp
  moreover have "cached example_settings Map.empty (cache_key example_deps example_req) = None"
    by (simp add: cached_def)
  ultimately have "handle example_settings example_deps low_world Map.empty example_req
          = Inr ((\<lparr>answer = fallback_text example_deps (query example_req), sources = [],
                    latency_ms = Some 0\<rparr>, False),
                 store example_settings Map.empty (cache_key example_deps example_req)
                   \<lparr>answer = fallback_text example_deps (query example_req), sources = [],
                     latency_ms = Some 0\<rparr>)"
    using low_retrieve by (rule handle_low_relevance)
  then show ?thesis
    by (simp add: example_query example_key example_store example_fallback_text fallback_resp_def)
qed

lemma example_clamp: "max 0 (min 1 (min_relevance example_settings)) = 0.35"
  by (simp add: example_settings_def)

lemma strict_clamp: "max 0 (min 1 (min_relevance strict_settings)) = 1"
  by (simp add: strict_settings_def)

lemma example_hit_score: "score example_hit = 1"
  by (simp add: example_hit_def)

lemma exact_handle:
  "handle strict_settings example_deps exact_world Map.empty example_req
     = Inr ((\<lparr>answer = asc ''generated'', sources = [attribution example_hit],
               latency_ms = Some 12\<rparr>, False),
            [asc ''q|None|None'' \<mapsto>
               \<lparr>answer = asc ''generated'', sources = [attribution example_hit],
                 latency_ms = Some 12\<rparr>])"
proof -
  have gate: "apply_relevance_threshold strict_settings [example_hit] = ([example_hit], 1)"
    unfolding apply_relevance_threshold_exact strict_clamp
    by (simp add: example_hit_score)
  have ret: "retrieve strict_settings (index_search exact_world) (reranker exact_world)
      (query example_req) (req_top_k example_req) = Inr [example_hit]"
    by (simp add: retrieve_def exact_world_def low_world_def Let_def)
  have miss: "cached strict_settings Map.empty (cache_key example_deps example_req) = None"
    by (simp add: cached_def)
  have st: "store strict_settings Map.empty key resp = [key \<mapsto> resp]" for key resp
    by (simp add: store_def strict_settings_def example_settings_def)
  show ?thesis
    apply (simp only: handle_def Let_def miss ret option.case sum.case)
    apply (simp only: gate prod.case)
    apply (simp add: exact_world_def low_world_def generate_answer_def example_key st Let_def)
    done
qed

theorem relevance_gate_fallback_witness:
  "0 < max 0 (min 1 (min_relevance example_settings))
   \<and> list_all (\<lambda>h. score h < max 0 (min 1 (min_relevance example_settings))) low_hits
   \<and> apply_relevance_threshold example_settings low_hits = ([], 0.2)
   \<and> handle example_settings example_deps low_world Map.empty example_req
       = Inr ((\<lparr>answer = fallback_text example_deps (asc ''q''), sources = [],
                 latency_ms = Some 0\<rparr>, False),
              [asc ''q|None|None'' \<mapsto>
                 \<lparr>answer = fallback_text example_deps (asc ''q''), sources = [],
                   latency_ms = Some 0\<rparr>])
   \<and> min_relevance strict_settings = 7
   \<and> apply_relevance_threshold strict_settings [example_hit] = ([example_hit], 1)
   \<and> handle strict_settings example_deps exact_world Map.empty example_req
       = Inr ((\<lparr>answer = asc ''generated'', sources = [attribution example_hit],
                 latency_ms = Some 12\<rparr>, False),
              [asc ''q|None|None'' \<mapsto>
                 \<lparr>answer = asc ''generated'', sources = [attribution example_hit],
                   latency_ms = Some 12\<rparr>])"
proof -
  note low = relevance_gate_fallback[where settings = example_settings and hits = low_hits
      and c = Map.empty and dp = example_deps and req = example_req and w = low_world]
  note high = relevance_gate_fallback[where settings = strict_settings and hits = "[example_hit]"
      and c = Map.empty and dp = example_deps and req = example_req and w = exact_world]
  have pos: "0 < max 0 (min 1 (min_relevance example_settings))"
    unfolding example_clamp by simp
  have below: "\<forall>h \<in> set low_hits. score h < max 0 (min 1 (min_relevance example_settings))"
    unfolding example_clamp by (simp add: low_hits_def)
  have miss: "cached example_settings Map.empty (cache_key example_deps example_req) = None"
    by (simp add: cached_def)
  from low pos have "apply_relevance_threshold example_settings low_hits
      = (filter (\<lambda>h. max 0 (min 1 (min_relevance example_settings)) \<le> score h) low_hits,
         if low_hits = [] then 0 else Max (score ` set low_hits))"
    by simp
  then have gate_low: "apply_relevance_threshold example_settings low_hits = ([], 0.2)"
    unfolding example_clamp by (simp add: low_hits_def)
  from low pos below miss low_retrieve
  have fb: "handle example_settings example_deps low_world Map.empty example_req
       = Inr ((\<lparr>answer = fallback_text example_deps (query example_req), sources = [],
                 latency_ms = Some 0\<rparr>, False),
              store example_settings Map.empty (cache_key example_deps example_req)
                 \<lparr>answer = fallback_text example_deps (query example_req), sources = [],
                   latency_ms = Some 0\<rparr>)"
    by blast
  from high have "apply_relevance_threshold strict_settings [example_hit]
      = (if 0 < max 0 (min 1 (min_relevance strict_settings))
         then filter (\<lambda>h. max 0 (min 1 (min_relevance strict_settings)) \<le> score h) [example_hit]
         else [example_hit],
         if [example_hit] = [] then 0 else Max (score ` set [example_hit]))"
    by (rule conjunct1)
  then have gate_high: "apply_relevance_threshold strict_settings [example_hit] = ([example_hit], 1)"
    unfolding strict_clamp by (simp add: example_hit_score)
  have seven: "min_relevance strict_settings = 7"
    by (simp add: strict_settings_def)
  from pos below gate_low fb seven gate_high exact_handle show ?thesis
    by (simp add: example_query example_key example_store list_all_iff)
qed

theorem cache_key_ignores_session_witness:
  "cache_enabled example_settings
   \<and> query example_req = query other_req \<and> req_top_k example_req = req_top_k other_req
   \<and> max_tokens example_req = max_tokens other_req
   \<and> session_id example_req \<noteq> session_id other_req
   \<and> streaming example_req \<noteq> streaming other_req
   \<and> handle example_settings example_deps low_world Map.empty example_req
       = Inr ((fallback_resp, False), [asc ''q|None|None'' \<mapsto> fallback_resp])
   \<and> cache_key example_deps example_req = cache_key example_deps other_req
   \<and> handle example_settings example_deps high_world [asc ''q|None|None'' \<mapsto> fallback_resp]
        other_req
       = Inr ((fallback_resp, True), [asc ''q|None|None'' \<mapsto> fallback_resp])"
proof -
  have en: "cache_enabled example_settings"
    by (simp add: example_settings_def)
  have same: "query example_req = query other_req" "req_top_k example_req = req_top_k other_req"
    "max_tokens example_req = max_tokens other_req"
    by (simp_all add: other_req_def)
  have diff: "session_id example_req \<noteq> session_id other_req"
    "streaming example_req \<noteq> streaming other_req"
    by (simp_all add: other_req_def example_req_def asc_def)
  from cache_key_ignores_session[OF en same low_handle, of high_world] en same diff low_handle
  show ?thesis by simp
qed

section \<open>Properties of the remote rerankers\<close>

text \<open>
  C5 fails on \<open>OpenAICompatibleReranker.rerank\<close>. With two candidates, \<open>top_k = 2\<close> and a
  body whose entries carry the indices \<open>-1\<close> and \<open>1\<close>, the first entry passes the tests
  (\<open>-1\<close> is below the number of candidates and unused) and \<open>candidates[-1]\<close> is the last
  candidate; the second entry names the same candidate by its index 1, which is not in
  \<open>used\<close>. The result holds the second candidate twice and the first one never.
\<close>

theorem openai_rerank_duplicate:
  "openai_rerank example_settings (\<lambda>q docs n. Inr negative_index_body) (\<lambda>s. None)
      (asc ''q'') [cand0, cand1] 2
     = Inr [cand1, cand1]"
  by (simp add: openai_rerank_def example_settings_def int_or_def py_slice_def slice_bound_def
        negative_index_body_def openai_extract_entries_def py_get_def asc_def
        openai_resolve_index_def py_index_def OPENAI_SCORE_KEYS_def entry_dict_def Let_def
        cand0_def cand1_def)

section \<open>Properties of the embedding provider\<close>

lemma embed_batch_run:
  "embed_batch prov retries maxd batch attempt delay st = (res, st') \<Longrightarrow> attempt < retries \<Longrightarrow>
   \<exists>n. calls st' = calls st + Suc n
     \<and> attempt + int (Suc n) \<le> retries
     \<and> sleeps st' = sleeps st @ backoff delay maxd n
     \<and> (\<forall>i<n. \<exists>x. prov (calls st + i) batch = Inl x \<and> is_retryable_error x)
     \<and> (case res of
          Inl exc \<Rightarrow> prov (calls st + n) batch = Inl exc
                     \<and> (\<not> is_retryable_error exc \<or> attempt + int (Suc n) = retries)
        | Inr vecs \<Rightarrow> prov (calls st + n) batch = Inr vecs)"
proof (induction prov retries maxd batch attempt delay st arbitrary: res st'
       rule: embed_batch.induct)
  case (1 prov retries maxd batch attempt delay st)
  show ?case
  proof (cases "prov (calls st) batch")
    case (Inr vecs)
    with "1.prems"(1) have "res = Inr vecs" "st' = st\<lparr>calls := Suc (calls st)\<rparr>"
      by (simp_all add: embed_batch.simps)
    with Inr "1.prems"(2) show ?thesis
      by (intro exI[of _ 0]) simp
  next
    case (Inl exc)
    show ?thesis
    proof (cases "attempt + 1 \<ge> retries \<or> \<not> is_retryable_error exc")
      case True
      with Inl "1.prems"(1) have "res = Inl exc" "st' = st\<lparr>calls := Suc (calls st)\<rparr>"
        by (simp_all add: embed_batch.simps)
      with Inl True "1.prems"(2) show ?thesis
        by (intro exI[of _ 0]) auto
    next
      case False
      let ?st2 = "st\<lparr>calls := Suc (calls st), sleeps := sleeps st @ [delay]\<rparr>"
      from False Inl "1.prems"(1) have run:
        "embed_batch prov retries maxd batch (attempt + 1) (min (delay * 2) maxd) ?st2 = (res, st')"
        by (simp add: embed_batch.simps)
      from False have "attempt + 1 < retries" by simp
      from "1.IH"[OF Inl False run this] obtain n where n:
        "calls st' = calls ?st2 + Suc n"
        "attempt + 1 + int (Suc n) \<le> retries"
        "sleeps st' = sleeps ?st2 @ backoff (min (delay * 2) maxd) maxd n"
        "\<forall>i<n. \<exists>x. prov (calls ?st2 + i) batch = Inl x \<and> is_retryable_error x"
        "case res of
          Inl exc \<Rightarrow> prov (calls ?st2 + n) batch = Inl exc
                     \<and> (\<not> is_retryable_error exc \<or> attempt + 1 + int (Suc n) = retries)
        | Inr vecs \<Rightarrow> prov (calls ?st2 + n) batch = Inr vecs"
        by blast
      have earlier: "\<exists>x. prov (calls st + i) batch = Inl x \<and> is_retryable_error x"
        if "i < Suc n" for i
      proof (cases i)
        case 0
        with Inl False show ?thesis by simp
      next
        case (Suc j)
        with that n(4) show ?thesis by simp
      qed
      from n(1) have "calls st' = calls st + Suc (Suc n)" by simp
      moreover from n(2) have "attempt + int (Suc (Suc n)) \<le> retries" by simp
      moreover from n(3) have "sleeps st' = sleeps st @ backoff delay maxd (Suc n)" by simp
      moreover from n(5) have "case res of
          Inl exc \<Rightarrow> prov (calls st + Suc n) batch = Inl exc
                     \<and> (\<not> is_retryable_error exc \<or> attempt + int (Suc (Suc n)) = retries)
        | Inr vecs \<Rightarrow> prov (calls st + Suc n) batch = Inr vecs"
        by (auto split: sum.splits simp: add.commute add.left_commute)
      ultimately show ?thesis
        using earlier by (intro exI[of _ "Suc n"]) blast
    qed
  qed
qed

lemma backoff_closed_form:
  "delay \<le> maxd \<Longrightarrow> 0 \<le> maxd \<Longrightarrow> backoff delay maxd n = map (\<lambda>i. min (delay * 2 ^ i) maxd) [0..<n]"
proof (induction n arbitrary: delay)
  case 0
  then show ?case by simp
next
  case (Suc n)
  have step: "min (min (delay * 2) maxd * 2 ^ i) maxd = min (delay * 2 ^ Suc i) maxd" for i
  proof (cases "delay * 2 \<le> maxd")
    case True
    then show ?thesis by (simp add: min_absorb1 mult.assoc)
  next
    case False
    have one: "(1::real) \<le> 2 ^ i" by simp
    from Suc.prems(2) one have "maxd * 1 \<le> maxd * 2 ^ i"
      by (rule mult_left_mono[rotated])
    then have lhs: "min (maxd * 2 ^ i) maxd = maxd" by simp
    from False have "0 \<le> delay * 2" using Suc.prems(2) by simp
    with one have "delay * 2 * 1 \<le> delay * 2 * 2 ^ i"
      by (intro mult_left_mono) simp_all
    with False have "maxd \<le> delay * 2 ^ Suc i" by (simp add: mult.assoc)
    then have "min (delay * 2 ^ Suc i) maxd = maxd" by simp
    with lhs False show ?thesis by (simp add: min_absorb2)
  qed
  have "backoff delay maxd (Suc n) = delay # backoff (min (delay * 2) maxd) maxd n" by simp
  also have "backoff (min (delay * 2) maxd) maxd n
      = map (\<lambda>i. min (min (delay * 2) maxd * 2 ^ i) maxd) [0..<n]"
    using Suc.prems by (intro Suc.IH) simp_all
  also have "\<dots> = map (\<lambda>i. min (delay * 2 ^ Suc i) maxd) [0..<n]"
    using step by simp
  also have "delay # \<dots> = map (\<lambda>i. min (delay * 2 ^ i) maxd) (0 # map Suc [0..<n])"
    using Suc.prems(1) by (simp add: comp_def)
  also have "0 # map Suc [0..<n] = [0..<Suc n]"
    by (simp add: upt_rec[of 0 "Suc n"] map_Suc_upt del: upt_Suc)
  finally show ?case .
qed

lemma effective_parameters:
  "1 \<le> max_retries settings" "1 \<le> batch_size settings"
  "1 / 10 \<le> base_delay settings" "base_delay settings \<le> max_delay settings"
  by (simp_all add: max_retries_def batch_size_def base_delay_def max_delay_def)

lemma embed_batches_append:
  "embed_batches prov retries maxd based (pre @ rest) acc st
     = (case embed_batches prov retries maxd based pre acc st of
          (Inl e, st') \<Rightarrow> (Inl e, st')
        | (Inr acc', st') \<Rightarrow> embed_batches prov retries maxd based rest acc' st')"
  by (induction pre arbitrary: acc st) (auto split: prod.splits sum.splits)



text \<open>
  C6, as amended. Inside \<open>embed\<close>, with the effective parameters
  \<open>max_retries = max(1, configured count or 1)\<close>,
  \<open>base_delay = max(0.1, configured base or 0.1)\<close> and
  \<open>max_delay = max(base_delay, configured maximum or base_delay)\<close>:
  an error of a batch that is not classified as retryable propagates after that one call,
  with no sleep and no retry; in every run of a batch all calls but the last failed with a
  retryable error, the delays slept are \<open>min(base_delay * 2^i, max_delay)\<close> for
  \<open>i = 0, 1, ...\<close>, at most \<open>max_retries\<close> calls are made, and an error that ends the run
  is the one of the last call, which is not retryable or is call number \<open>max_retries\<close>;
  and when a batch ends in an error after the batches before it succeeded, \<open>embed\<close>
  raises that error at once: it returns no matrix and calls the provider no more.
\<close>

theorem embed_retry_discipline:
  "(prov (calls st) batch = Inl exc \<and> \<not> is_retryable_error exc
      \<longrightarrow> embed_batch prov (max_retries settings) (max_delay settings) batch 0
            (base_delay settings) st
          = (Inl exc, st\<lparr>calls := Suc (calls st)\<rparr>))
   \<and> (embed_batch prov (max_retries settings) (max_delay settings) batch 0
         (base_delay settings) st = (res, st')
      \<longrightarrow> (\<exists>n. calls st' = calls st + Suc n
              \<and> int (Suc n) \<le> max_retries settings
              \<and> sleeps st' = sleeps st
                   @ map (\<lambda>i. min (base_delay settings * 2 ^ i) (max_delay settings)) [0..<n]
              \<and> (\<forall>i<n. \<exists>x. prov (calls st + i) batch = Inl x \<and> is_retryable_error x)
              \<and> (case res of
                   Inl e \<Rightarrow> prov (calls st + n) batch = Inl e
                            \<and> (\<not> is_retryable_error e \<or> int (Suc n) = max_retries settings)
                 | Inr vecs \<Rightarrow> prov (calls st + n) batch = Inr vecs)))
   \<and> (slices (nat (batch_size settings)) texts = pre @ batch # post
        \<and> embed_batches prov (max_retries settings) (max_delay settings) (base_delay settings)
             pre [] st0 = (Inr earlier, st)
        \<and> embed_batch prov (max_retries settings) (max_delay settings) batch 0
             (base_delay settings) st = (Inl exc, st')
      \<longrightarrow> embed settings (Some prov) texts st0 = (Inl exc, st'))"
proof (intro conjI impI)
  assume "prov (calls st) batch = Inl exc \<and> \<not> is_retryable_error exc"
  then show "embed_batch prov (max_retries settings) (max_delay settings) batch 0
      (base_delay settings) st = (Inl exc, st\<lparr>calls := Suc (calls st)\<rparr>)"
    by (simp add: embed_batch.simps)
next
  assume run: "embed_batch prov (max_retries settings) (max_delay settings) batch 0
      (base_delay settings) st = (res, st')"
  have "0 < max_retries settings" "base_delay settings \<le> max_delay settings"
    "0 \<le> max_delay settings"
    using effective_parameters[of settings] by simp_all
  with embed_batch_run[OF run] backoff_closed_form
  show "\<exists>n. calls st' = calls st + Suc n
      \<and> int (Suc n) \<le> max_retries settings
      \<and> sleeps st' = sleeps st
           @ map (\<lambda>i. min (base_delay settings * 2 ^ i) (max_delay settings)) [0..<n]
      \<and> (\<forall>i<n. \<exists>x. prov (calls st + i) batch = Inl x \<and> is_retryable_error x)
      \<and> (case res of
           Inl e \<Rightarrow> prov (calls st + n) batch = Inl e
                    \<and> (\<not> is_retryable_error e \<or> int (Suc n) = max_retries settings)
         | Inr vecs \<Rightarrow> prov (calls st + n) batch = Inr vecs)"
    by (auto split: sum.splits)
next
  assume fail: "slices (nat (batch_size settings)) texts = pre @ batch # post
        \<and> embed_batches prov (max_retries settings) (max_delay settings) (base_delay settings)
             pre [] st0 = (Inr earlier, st)
        \<and> embed_batch prov (max_retries settings) (max_delay settings) batch 0
             (base_delay settings) st = (Inl exc, st')"
  then have "texts \<noteq> []"
    by (auto simp: slices.simps)
  moreover from fail have "embed_batches prov (max_retries settings) (max_delay settings)
      (base_delay settings) (slices (nat (batch_size settings)) texts) [] st0 = (Inl exc, st')"
    by (simp add: embed_batches_append)
  ultimately show "embed settings (Some prov) texts st0 = (Inl exc, st')"
    by (simp add: embed_def)
qed

lemma example_effective:
  "max_retries example_settings = 4" "max_delay example_settings = 6"
  "base_delay example_settings = 4 / 5" "batch_size example_settings = 32"
  by (simp_all add: max_retries_def max_delay_def base_delay_def batch_size_def
        example_settings_def int_or_def real_or_def)

lemma throttled_retryable: "is_retryable_error (Exception (asc ''HTTP 429''))"
  by (simp add: is_retryable_error_def exn_message_def py_lower_def asc_def)

lemma rejecting_not_retryable: "\<not> is_retryable_error (Exception (asc ''bad request''))"
  by (simp add: is_retryable_error_def exn_message_def py_lower_def asc_def)

lemma single_slice: "slices 32 [asc ''t''] = [[asc ''t'']]"
  by (subst slices.simps, simp, subst slices.simps, simp)

lemma throttled_batch:
  "embed_batch throttled 4 6 [asc ''t''] 0 (4 / 5) start_state
     = (Inl (Exception (asc ''HTTP 429'')), \<lparr>calls = 4, sleeps = [4 / 5, 8 / 5, 16 / 5]\<rparr>)"
  apply (subst embed_batch.simps, simp add: throttled_def throttled_retryable start_state_def)
  apply (subst embed_batch.simps, simp add: throttled_def throttled_retryable start_state_def)
  apply (subst embed_batch.simps, simp add: throttled_def throttled_retryable start_state_def)
  apply (subst embed_batch.simps, simp add: throttled_def throttled_retryable start_state_def)
  done

theorem embed_retry_discipline_witness:
  "\<not> is_retryable_error (Exception (asc ''bad request''))
   \<and> embed_batch rejecting (max_retries example_settings) (max_delay example_settings)
        [asc ''t''] 0 (base_delay example_settings) start_state
       = (Inl (Exception (asc ''bad request'')), \<lparr>calls = 1, sleeps = []\<rparr>)
   \<and> embed_batch throttled (max_retries example_settings) (max_delay example_settings)
        [asc ''t''] 0 (base_delay example_settings) start_state
       = (Inl (Exception (asc ''HTTP 429'')), \<lparr>calls = 4, sleeps = [4 / 5, 8 / 5, 16 / 5]\<rparr>)
   \<and> (\<exists>n. calls \<lparr>calls = 4, sleeps = [4 / 5, 8 / 5, 16 / 5]\<rparr> = calls start_state + Suc n
          \<and> int (Suc n) \<le> max_retries example_settings
          \<and> [4 / 5, 8 / 5, 16 / 5]
               = map (\<lambda>i. min (base_delay example_settings * 2 ^ i) (max_delay example_settings))
                   [0..<n])
   \<and> embed example_settings (Some throttled) [asc ''t''] start_state
       = (Inl (Exception (asc ''HTTP 429'')), \<lparr>calls = 4, sleeps = [4 / 5, 8 / 5, 16 / 5]\<rparr>)"
proof -
  let ?final = "\<lparr>calls = 4, sleeps = [4 / 5, 8 / 5, 16 / 5]\<rparr>"
  let ?e = "Exception (asc ''HTTP 429'')"
  let ?bad = "Exception (asc ''bad request'')"
  have rej: "rejecting (calls start_state) [asc ''t''] = Inl ?bad"
    by (simp add: rejecting_def)
  note first = embed_retry_discipline[where prov = rejecting and st = start_state
      and batch = "[asc ''t'']" and exc = ?bad and settings = example_settings,
      THEN conjunct1, rule_format, OF conjI, OF rej rejecting_not_retryable]
  have run: "embed_batch throttled (max_retries example_settings) (max_delay example_settings)
        [asc ''t''] 0 (base_delay example_settings) start_state = (Inl ?e, ?final)"
    unfolding example_effective by (rule throttled_batch)
  note second = embed_retry_discipline[where prov = throttled and st = start_state
      and batch = "[asc ''t'']" and settings = example_settings and res = "Inl ?e"
      and st' = ?final, THEN conjunct2, THEN conjunct1, rule_format, OF run]
  have sl: "slices (nat (batch_size example_settings)) [asc ''t''] = [] @ [asc ''t''] # []"
    unfolding example_effective by (simp add: single_slice)
  have pre: "embed_batches throttled (max_retries example_settings) (max_delay example_settings)
      (base_delay example_settings) [] [] start_state = (Inr [], start_state)"
    by simp
  note third = embed_retry_discipline[where prov = throttled and st = start_state
      and batch = "[asc ''t'']" and settings = example_settings and texts = "[asc ''t'']"
      and pre = "[]" and post = "[]" and ?st0.0 = start_state and earlier = "[]"
      and exc = ?e and st' = ?final,
      THEN conjunct2, THEN conjunct2, rule_format, OF conjI, OF sl conjI, OF pre run]
  from second obtain n where n: "calls ?final = calls start_state + Suc n"
      "int (Suc n) \<le> max_retries example_settings"
      "sleeps ?final = sleeps start_state
         @ map (\<lambda>i. min (base_delay example_settings * 2 ^ i) (max_delay example_settings)) [0..<n]"
    by (elim exE conjE)
  from n(3) have "[4 / 5, 8 / 5, 16 / 5]
      = map (\<lambda>i. min (base_delay example_settings * 2 ^ i) (max_delay example_settings)) [0..<n]"
    by (simp only: start_state_def embed_state.simps append_Nil)
  with n(1,2) have ex: "\<exists>n. calls ?final = calls start_state + Suc n
          \<and> int (Suc n) \<le> max_retries example_settings
          \<and> [4 / 5, 8 / 5, 16 / 5]
               = map (\<lambda>i. min (base_delay example_settings * 2 ^ i) (max_delay example_settings))
                   [0..<n]"
    by (intro exI[of _ n] conjI)
  from first have first': "embed_batch rejecting (max_retries example_settings)
        (max_delay example_settings) [asc ''t''] 0 (base_delay example_settings) start_state
       = (Inl ?bad, \<lparr>calls = 1, sleeps = []\<rparr>)"
    by (simp add: start_state_def)
  from rejecting_not_retryable first' run ex third show ?thesis
    by (intro conjI)
qed

theorem embed_first_delay_clamped:
  "embedding_retry_base_delay short_delay_settings = 1 / 20
   \<and> snd (embed short_delay_settings (Some flaky) [asc ''t''] start_state)
       = \<lparr>calls = 2, sleeps = [1 / 10]\<rparr>"
proof -
  have eff: "max_retries short_delay_settings = 4" "max_delay short_delay_settings = 6"
    "base_delay short_delay_settings = 1 / 10" "batch_size short_delay_settings = 32"
    by (simp_all add: max_retries_def max_delay_def base_delay_def batch_size_def
          short_delay_settings_def example_settings_def int_or_def real_or_def)
  have retry: "is_retryable_error (RateLimitError (asc ''slow down''))"
    by (simp add: is_retryable_error_def)
  have batch: "embed_batch flaky 4 6 [asc ''t''] 0 (1 / 10) start_state
      = (Inr [[1]], \<lparr>calls = 2, sleeps = [1 / 10]\<rparr>)"
    apply (subst embed_batch.simps, simp add: flaky_def retry start_state_def)
    apply (subst embed_batch.simps, simp add: flaky_def)
    done
  have "embed short_delay_settings (Some flaky) [asc ''t''] start_state
      = (Inr [[1]], \<lparr>calls = 2, sleeps = [1 / 10]\<rparr>)"
    unfolding embed_def eff
    by (simp add: single_slice batch vstack_def rectangular_def)
  then show ?thesis
    by (simp add: short_delay_settings_def)
qed




text \<open>Values of the \<open>binary32\<close> arithmetic used by the examples.\<close>

lemma round32_zero: "round32 0 = Finite 0"
  by (simp add: round32_def)

lemma pow2_powr: "pow2 k = 2 powr of_int k"
proof (cases "0 \<le> k")
  case True
  then have "(2::real) powr of_int k = 2 powr real (nat k)" by simp
  also have "\<dots> = 2 ^ nat k" by (simp add: powr_realpow)
  finally show ?thesis using True by (simp add: pow2_def)
next
  case False
  then have "(2::real) powr of_int k = 2 powr (- real (nat (- k)))" by simp
  also have "\<dots> = 1 / 2 powr real (nat (- k))" by (simp add: powr_minus_divide)
  also have "\<dots> = 1 / 2 ^ nat (- k)" by (simp add: powr_realpow)
  finally show ?thesis using False by (simp add: pow2_def)
qed

lemma round32_binade:
  assumes "- 126 \<le> k" "pow2 k \<le> x" "x < pow2 (k + 1)"
  shows "round32 x =
     (let r = of_int (round_half_even (x / pow2 (k - 23))) * pow2 (k - 23)
      in if 2 ^ 128 \<le> r then PlusInf else if r \<le> - (2 ^ 128) then MinusInf else Finite r)"
proof -
  have "0 < pow2 k" by (simp add: pow2_powr)
  with assms(2) have pos: "0 < x" by simp
  have "\<lfloor>log 2 x\<rfloor> = k"
    using pos assms(2,3) by (simp add: floor_log_eq_powr_iff pow2_powr)
  with assms(1) pos show ?thesis
    by (simp add: round32_def Let_def max_def)
qed


lemma epsilon32_value: "epsilon32 = Finite (9223372 / 2 ^ 63)"
  unfolding epsilon32_def
  by (subst round32_binade[where k = "- 40"])
     (simp_all add: pow2_def round_half_even_def Let_def)



lemma round32_huge: "round32 (10 ^ 39) = PlusInf"
  by (subst round32_binade[where k = 129])
     (simp_all add: pow2_def round_half_even_def Let_def)



lemma add_epsilon_infinity: "f32_add PlusInf epsilon32 = PlusInf"
  unfolding epsilon32_value by simp




lemma huge_row: "normalize_row ieee_numpy [10 ^ 39, 0] = [NaN, Finite 0]"
proof -
  have arr: "map (asarray_float32 ieee_numpy) [10 ^ 39, 0] = [PlusInf, Finite 0]"
    by (simp only: ieee_numpy_def numpy.select_convs list.map round32_zero round32_huge)
  have norm: "f32_norm [PlusInf, Finite 0] = PlusInf"
    by (simp add: f32_norm_def round32_zero)
  have norms: "add_epsilon ieee_numpy (linalg_norm ieee_numpy [PlusInf, Finite 0]) = PlusInf"
    by (simp only: ieee_numpy_def numpy.select_convs norm add_epsilon_infinity)
  have quot: "f32_div PlusInf PlusInf = NaN" "f32_div (Finite 0) PlusInf = Finite 0"
    by simp_all
  show ?thesis
    unfolding normalize_row_def Let_def arr norms
    by (simp only: ieee_numpy_def numpy.select_convs list.map quot)
qed

lemma one_row_embed:
  assumes "backend = (\<lambda>n texts. Inr [v])"
  shows "embed example_settings (Some (embed_openai ieee_numpy backend)) [asc ''t''] start_state
     = (Inr [normalize_row ieee_numpy v], \<lparr>calls = 1, sleeps = []\<rparr>)"
proof -
  have batch: "embed_batch (embed_openai ieee_numpy backend) 4 6 [asc ''t''] 0 (4 / 5) start_state
      = (Inr [normalize_row ieee_numpy v], \<lparr>calls = 1, sleeps = []\<rparr>)"
    by (subst embed_batch.simps)
       (simp add: embed_openai_def assms rectangular_def start_state_def)
  show ?thesis
    unfolding embed_def example_effective
    by (simp add: single_slice batch vstack_def rectangular_def)
qed




text \<open>
  Nor is the norm of a row bounded away from such cases: a number of the backend that
  is too large for \<open>float32\<close> becomes an infinity, the norm is infinite, and the row
  \<open>embed\<close> returns holds a NaN.
\<close>

lemma embed_overflow_row:
  "embed example_settings (Some (embed_openai ieee_numpy huge_backend)) [asc ''t''] start_state
     = (Inr [[NaN, Finite 0]], \<lparr>calls = 1, sleeps = []\<rparr>)"
proof -
  have "huge_backend = (\<lambda>n texts. Inr [[10 ^ 39, 0]])"
    by (intro ext) (simp add: huge_backend_def)
  from one_row_embed[OF this] show ?thesis
    by (simp only: huge_row)
qed

section \<open>Properties of the ingestion coordinator\<close>

lemma dict_set_keys:
  "map fst (dict_set d key v) = (if key \<in> fst ` set d then map fst d else map fst d @ [key])"
  by (induction d key v rule: dict_set.induct) auto

lemma dict_set_distinct: "distinct (map fst d) \<Longrightarrow> distinct (map fst (dict_set d key v))"
  by (simp add: dict_set_keys)

lemma resolve_docs_keys:
  "resolve_docs env jm names req st = (Inr requested, st1) \<Longrightarrow> distinct (map fst req) \<Longrightarrow>
     [] \<notin> fst ` set req \<Longrightarrow> [] \<notin> set names \<Longrightarrow>
     distinct (map fst requested) \<and> [] \<notin> fst ` set requested"
proof (induction names arbitrary: req st)
  case Nil
  then show ?case by simp
next
  case (Cons name rest)
  show ?case
  proof (cases "get_document env name")
    case (Inl e)
    with Cons show ?thesis
      by (cases e) (auto split: if_splits)
  next
    case (Inr doc)
    show ?thesis
    proof (cases "py_lower (doc_ext doc) \<in> set ALLOWED_DOC_EXTS")
      case True
      with Inr Cons.prems(1) have run:
        "resolve_docs env jm rest (dict_set req name doc) st = (Inr requested, st1)"
        by (simp add: Let_def)
      have "distinct (map fst (dict_set req name doc))"
        using Cons.prems(2) by (rule dict_set_distinct)
      moreover have "[] \<notin> fst ` set (dict_set req name doc)"
      proof -
        have "fst ` set (dict_set req name doc) = set (map fst (dict_set req name doc))" by simp
        also have "\<dots> \<subseteq> fst ` set req \<union> {name}"
          unfolding dict_set_keys by auto
        finally show ?thesis using Cons.prems(3,4) by auto
      qed
      moreover have "[] \<notin> set rest" using Cons.prems(4) by simp
      ultimately show ?thesis using Cons.IH[OF run] by blast
    next
      case False
      with Inr Cons.prems(1) have run:
        "resolve_docs env jm rest req
           (fail jm name (REASON_UNSUPPORTED (py_lower (doc_ext doc))) st) = (Inr requested, st1)"
        by (simp add: Let_def)
      from Cons.IH[OF run Cons.prems(2,3)] Cons.prems(4) show ?thesis by simp
    qed
  qed
qed

lemma group_chunks_keys: "map fst (group_chunks m cs) = map fst m"
proof (induction cs arbitrary: m)
  case Nil
  then show ?case by simp
next
  case (Cons c cs)
  have "map fst (map (\<lambda>(n, cl). if n = dc_source c then (n, cl @ [c]) else (n, cl)) m) = map fst m"
    by (induction m) auto
  with Cons.IH show ?case by simp
qed

lemma update_all_refs_index: "index (snd (update_all_refs env m st)) = index st"
  by (induction env m st rule: update_all_refs.induct) (auto split: option.splits)

lemma delete_documents_removes:
  "name \<in> set doc_names \<Longrightarrow> name \<noteq> [] \<Longrightarrow>
     \<forall>r \<in> set (fst (delete_documents doc_names idx)). dc_source (fst r) \<noteq> name"
  by (auto simp: delete_documents_def Let_def filter_empty_conv)

lemma init_map_keys: "map fst (map (\<lambda>(n, d). (n, [])) requested) = map fst requested"
  by (induction requested) auto

lemma update_all_refs_keeps_index:
  "update_all_refs env m st = (res, st') \<Longrightarrow> index st' = index st"
  using update_all_refs_index[of env m st] by simp

lemma write_index_removes:
  assumes "write_index env doc_chunk_map idx = Inr idx2"
    and "(name, []) \<in> set doc_chunk_map" "name \<noteq> []"
  shows "\<forall>r \<in> set idx2. dc_source (fst r) \<noteq> name"
proof -
  let ?empty = "map fst (filter (\<lambda>(n, cl). cl = []) doc_chunk_map)"
  from assms(2) have mem: "name \<in> set ?empty" by force
  from length_pos_if_in_set[OF mem] have "?empty \<noteq> []"
    by simp
  with assms(1) obtain idx1 where "idx2 = fst (delete_documents ?empty idx1)"
    by (auto simp: write_index_def Let_def split: sum.splits)
  with delete_documents_removes[OF mem assms(3)] show ?thesis by simp
qed

lemma index_section_result:
  assumes "index_section env settings requested st = Some (Inr doc_chunk_map, st2)"
  shows "map fst doc_chunk_map = map fst requested"
    and "(name, []) \<in> set doc_chunk_map \<Longrightarrow> name \<noteq> [] \<Longrightarrow>
           \<forall>r \<in> set (index st2). dc_source (fst r) \<noteq> name"
proof -
  from assms obtain chunks idx2 where parts:
    "doc_chunk_map = doc_chunk_map_of requested chunks"
    "write_index env doc_chunk_map (index st) = Inr idx2"
    "update_all_refs env doc_chunk_map (st\<lparr>index := idx2\<rparr>) = (None, st2)"
    by (auto simp: index_section_def Let_def split: option.splits sum.splits prod.splits)
  show "map fst doc_chunk_map = map fst requested"
    unfolding parts(1) doc_chunk_map_of_def by (simp only: group_chunks_keys init_map_keys)
  assume name: "(name, []) \<in> set doc_chunk_map" "name \<noteq> []"
  from update_all_refs_keeps_index[OF parts(3)] have "index st2 = idx2" by simp
  with write_index_removes[OF parts(2) name] show "\<forall>r \<in> set (index st2). dc_source (fst r) \<noteq> name"
    by simp
qed

lemma complete_all_index: "index (complete_all jm m st) = index st"
  by (induction jm m st rule: complete_all.induct) (simp_all add: complete_def report_status_def)

lemma complete_all_statuses:
  "statuses (complete_all jm m st)
     = statuses st
       @ map (\<lambda>(n, cl). (n, Completed (jm n) (length cl)
                               (if cl = [] then Some (asc ''no_chunks'') else None))) m"
  by (induction jm m st rule: complete_all.induct) (auto simp: complete_def report_status_def)

lemma filter_unique_key:
  "distinct (map fst m) \<Longrightarrow> (k, v) \<in> set m \<Longrightarrow>
     filter (\<lambda>(n, r). n = k) (map (\<lambda>(n, x). (n, g n x)) m) = [(k, g k v)]"
proof (induction m)
  case Nil
  then show ?case by simp
next
  case (Cons p m)
  obtain n x where p: "p = (n, x)" by (cases p)
  show ?case
  proof (cases "n = k")
    case True
    from Cons.prems(1) p True have notin: "\<forall>q \<in> set m. fst q \<noteq> k" by auto
    with Cons.prems(2) p True have "x = v" by force
    from notin have "filter (\<lambda>(n, r). n = k) (map (\<lambda>(n, x). (n, g n x)) m) = []"
      by (force simp: filter_empty_conv)
    with True p \<open>x = v\<close> show ?thesis by simp
  next
    case False
    with Cons p show ?thesis by auto
  qed
qed

lemma final_status_last:
  assumes "filter (\<lambda>(n, r). n = name) (statuses s) = xs @ [y]"
  shows "final_status s name = Some (snd y)"
proof (cases "filter (\<lambda>(n, r). n = name) (statuses s)")
  case Nil
  with assms show ?thesis by simp
next
  case (Cons a as)
  with assms have "last (a # as) = y" by (metis last_snoc)
  with Cons show ?thesis by (simp add: final_status_def)
qed

lemma final_status_completed:
  assumes "distinct (map fst m)" "(name, []) \<in> set m"
  shows "final_status (complete_all jm m st) name
           = Some (Completed (jm name) 0 (Some (asc ''no_chunks'')))"
proof -
  let ?g = "\<lambda>n cl. Completed (jm n) (length cl) (if cl = [] then Some (asc ''no_chunks'') else None)"
  have "filter (\<lambda>(n, r). n = name) (statuses (complete_all jm m st))
      = filter (\<lambda>(n, r). n = name) (statuses st) @ [(name, ?g name [])]"
    unfolding complete_all_statuses filter_append
    using filter_unique_key[OF assms, of ?g] by simp
  from final_status_last[OF this] show ?thesis by simp
qed

lemma group_chunks_no_chunk:
  "(name, []) \<in> set m \<Longrightarrow> \<forall>c \<in> set cs. dc_source c \<noteq> name \<Longrightarrow>
     (name, []) \<in> set (group_chunks m cs)"
proof (induction cs arbitrary: m)
  case Nil
  then show ?case by simp
next
  case (Cons c cs)
  let ?m = "map (\<lambda>(n, cl). if n = dc_source c then (n, cl @ [c]) else (n, cl)) m"
  from Cons.prems have "name \<noteq> dc_source c" by auto
  with Cons.prems(1) have "(name, []) \<in> set ?m" by force
  with Cons.IH[of ?m] Cons.prems(2) show ?case by simp
qed

lemma doc_chunk_map_of_no_chunk:
  assumes "(name, d) \<in> set requested" "\<forall>c \<in> set chunks. dc_source c \<noteq> name"
  shows "(name, []) \<in> set (doc_chunk_map_of requested chunks)"
proof -
  from assms(1) have "(name, []) \<in> set (map (\<lambda>(n, d). (n, [])) requested)" by force
  then show ?thesis
    unfolding doc_chunk_map_of_def using assms(2) by (rule group_chunks_no_chunk)
qed

lemma fail_all_index: "index (fail_all jm names st) = index st"
  by (induction jm names st rule: fail_all.induct) (simp_all add: fail_def report_status_def)

lemma fail_all_statuses:
  "statuses (fail_all jm names st)
     = statuses st @ map (\<lambda>n. (n, Failed (jm n) REASON_INDEX_FAILED)) names"
  by (induction jm names st rule: fail_all.induct) (simp_all add: fail_def report_status_def)

lemma final_status_failed:
  assumes "distinct (map fst requested)" "(name, d) \<in> set (requested :: (pystr \<times> document) list)"
  shows "final_status (fail_all jm (map fst requested) st) name
           = Some (Failed (jm name) REASON_INDEX_FAILED)"
proof -
  let ?g = "\<lambda>n (x::document). Failed (jm n) REASON_INDEX_FAILED"
  have eq: "map (\<lambda>n. (n, Failed (jm n) REASON_INDEX_FAILED)) (map fst requested)
      = map (\<lambda>(n, x). (n, ?g n x)) requested"
    by (simp add: case_prod_beta)
  have "filter (\<lambda>(n, r). n = name) (statuses (fail_all jm (map fst requested) st))
      = filter (\<lambda>(n, r). n = name) (statuses st) @ [(name, ?g name d)]"
    unfolding fail_all_statuses filter_append eq
    using filter_unique_key[OF assms, of ?g] by simp
  from final_status_last[OF this] show ?thesis by simp
qed

lemma chunk_text_returns:
  assumes "0 \<le> ov" "ov < s"
  shows "\<exists>ws. chunk_text (body :: pystr) s ov = Some ws"
proof (cases "body = []")
  case True
  then show ?thesis
    unfolding chunk_text_def by (subst chunk_loop.simps) simp
next
  case False
  then have "(0::int) < int (length body)" by simp
  moreover from assms have "0 < s" by simp
  ultimately show ?thesis
    using chunk_loop_windows[OF _ assms, of 0 body "[]"] unfolding chunk_text_def by auto
qed

lemma doc_chunks_returns:
  assumes "0 \<le> ov" "ov < s"
  shows "doc_chunks lb s ov doc \<noteq> None"
proof -
  have total: "(chunk_text body s ov = None) = False" for body :: pystr
    using chunk_text_returns[OF assms, of body] by auto
  show ?thesis
    by (simp add: doc_chunks_def Let_def total split: option.splits sum.splits)
qed

lemma load_loop_returns:
  assumes "0 \<le> ov" "ov < s"
  shows "load_loop lb s ov docs acc \<noteq> None"
proof (induction docs arbitrary: acc)
  case Nil
  then show ?case by simp
next
  case (Cons doc rest)
  with doc_chunks_returns[OF assms, of lb doc] show ?case
    by (auto split: option.splits sum.splits)
qed

lemma index_section_returns:
  assumes "0 < chunk_overlap settings" "chunk_overlap settings < chunk_size settings"
  shows "index_section env settings requested st \<noteq> None"
proof -
  from assms(1) have eo: "effective_overlap (chunk_size settings) (chunk_overlap settings)
      (chunk_overlap_ratio settings) = chunk_overlap settings"
    by (simp add: effective_overlap_def)
  from assms(1) have "0 \<le> chunk_overlap settings" by simp
  from load_loop_returns[OF this assms(2)]
  have "load_documents (job_libs env) (map snd requested) (chunk_size settings)
          (chunk_overlap settings) (chunk_overlap_ratio settings) \<noteq> None"
    by (simp add: load_documents_def eo)
  then show ?thesis
    by (auto simp: index_section_def Let_def split: option.splits sum.splits prod.splits)
qed

lemma index_section_chunk_map:
  assumes "index_section env settings requested st = Some (Inr doc_chunk_map, st2)"
    and "load_documents (job_libs env) (map snd requested) (chunk_size settings)
           (chunk_overlap settings) (chunk_overlap_ratio settings) = Some (Inr chunks)"
  shows "doc_chunk_map = doc_chunk_map_of requested chunks"
  using assms
  by (auto simp: index_section_def Let_def split: option.splits sum.splits prod.splits)

text \<open>
  The chunks of a document inside the batch are the chunks whose source is its name:
  no chunk of the batch carries a name exactly when every document of that name gave
  no chunk.
\<close>

lemma doc_chunks_sources:
  "doc_chunks lb cs eo doc = Some (Inr p) \<Longrightarrow> \<forall>c \<in> set p. dc_source c = doc_name doc"
  by (auto simp: doc_chunks_def Let_def make_chunk_def split: option.splits if_splits sum.splits)

lemma no_chunk_of_name:
  assumes "load_documents lb docs cs ov r = Some (Inr chunks)"
  shows "(\<forall>c \<in> set chunks. dc_source c \<noteq> nm)
       \<longleftrightarrow> (\<forall>doc \<in> set docs. doc_name doc = nm
              \<longrightarrow> doc_chunks lb cs (effective_overlap cs ov r) doc = Some (Inr []))"
proof -
  let ?eo = "effective_overlap cs ov r"
  from assms have "load_loop lb cs ?eo docs [] = Some (Inr chunks)"
    by (simp add: load_documents_def)
  from load_loop_per_document[OF this] obtain per where per:
    "list_all2 (\<lambda>d p. doc_chunks lb cs ?eo d = Some (Inr p)) docs per" "chunks = concat per"
    by auto
  show ?thesis
  proof
    assume none: "\<forall>c \<in> set chunks. dc_source c \<noteq> nm"
    show "\<forall>doc \<in> set docs. doc_name doc = nm \<longrightarrow> doc_chunks lb cs ?eo doc = Some (Inr [])"
    proof (intro ballI impI)
      fix doc
      assume doc: "doc \<in> set docs" "doc_name doc = nm"
      then obtain i where i: "i < length docs" "docs ! i = doc"
        by (auto simp: in_set_conv_nth)
      from per(1) i have p: "doc_chunks lb cs ?eo doc = Some (Inr (per ! i))" "i < length per"
        by (auto simp: list_all2_conv_all_nth)
      have "per ! i = []"
      proof (rule ccontr)
        assume "per ! i \<noteq> []"
        then obtain c where c: "c \<in> set (per ! i)" by (cases "per ! i") auto
        with doc_chunks_sources[OF p(1)] doc(2) have "dc_source c = nm" by simp
        moreover from c p(2) per(2) have "c \<in> set chunks" by auto
        ultimately show False using none by blast
      qed
      with p(1) show "doc_chunks lb cs ?eo doc = Some (Inr [])" by simp
    qed
  next
    assume empty: "\<forall>doc \<in> set docs. doc_name doc = nm
              \<longrightarrow> doc_chunks lb cs ?eo doc = Some (Inr [])"
    show "\<forall>c \<in> set chunks. dc_source c \<noteq> nm"
    proof (intro ballI notI)
      fix c
      assume c: "c \<in> set chunks" "dc_source c = nm"
      with per(2) obtain p where p: "p \<in> set per" "c \<in> set p" by auto
      then obtain i where i: "i < length per" "per ! i = p"
        by (auto simp: in_set_conv_nth)
      from per(1) i have d: "doc_chunks lb cs ?eo (docs ! i) = Some (Inr p)" "i < length docs"
        by (auto simp: list_all2_conv_all_nth)
      from doc_chunks_sources[OF d(1)] p(2) c(2) have "doc_name (docs ! i) = nm" by auto
      with empty d(2) have "doc_chunks lb cs ?eo (docs ! i) = Some (Inr [])" by simp
      with d(1) p(2) show False by simp
    qed
  qed
qed

text \<open>
  C2, as amended. Take a batch whose first loop returns the documents \<open>requested\<close>, and
  a document \<open>d\<close> that it holds under the requested name \<open>name\<close>.

  \<^item> If the shared section (chunking, upsert, delete, reference update) returns without
    raising, \<open>d\<close> is stored under the name it was requested under, and the loader gave no
    chunk for it (no chunk whose source is its name), then the job returns, no row of the
    vector table has \<open>d\<close> as its document, and the last status reported for \<open>name\<close> is
    completed, with chunk count 0 and the note \<open>no_chunks\<close>.
  \<^item> If the shared section raises, the job returns, the vector table stays as the
    section left it, and the last status reported for \<open>name\<close>, as for every requested
    document, is failed with the reason of a failed index build.
  \<^item> The job does not return exactly when the shared section does not, and it returns
    whenever a fixed overlap is configured that is positive and below the chunk size.
\<close>

theorem zero_chunk_document_completed:
  assumes "resolve_docs env (job_map entries) (filenames_of entries) [] st = (Inr requested, st1)"
    and "(name, d) \<in> set requested"
  shows "(index_section env settings requested st1 = Some (Inr doc_chunk_map, st2)
          \<and> load_documents (job_libs env) (map snd requested) (chunk_size settings)
              (chunk_overlap settings) (chunk_overlap_ratio settings) = Some (Inr chunks)
          \<and> doc_name d = name \<and> (\<forall>c \<in> set chunks. dc_source c \<noteq> doc_name d)
        \<longrightarrow> (\<exists>st'. run_vectorize_job env settings entries st = Some (None, st')
              \<and> (\<forall>r \<in> set (index st'). dc_source (fst r) \<noteq> doc_name d)
              \<and> final_status st' name
                  = Some (Completed (job_map entries name) 0 (Some (asc ''no_chunks'')))))
       \<and> (index_section env settings requested st1 = Some (Inl e, st2)
        \<longrightarrow> (\<exists>st'. run_vectorize_job env settings entries st = Some (None, st')
              \<and> index st' = index st2
              \<and> final_status st' name = Some (Failed (job_map entries name) REASON_INDEX_FAILED)))
       \<and> (run_vectorize_job env settings entries st = None
            \<longleftrightarrow> index_section env settings requested st1 = None)
       \<and> (0 < chunk_overlap settings \<and> chunk_overlap settings < chunk_size settings
        \<longrightarrow> run_vectorize_job env settings entries st \<noteq> None)"
proof -
  have names: "[] \<notin> set (filenames_of entries)"
    by (auto simp: filenames_of_def)
  from resolve_docs_keys[OF assms(1) _ _ names]
  have keys: "distinct (map fst requested)" "[] \<notin> fst ` set requested"
    by simp_all
  from assms(2) have "name \<in> fst ` set requested" by force
  with keys(2) have name: "name \<noteq> []" by (metis (no_types))
  from assms(2) have req: "requested \<noteq> []" by auto
  have files: "filenames_of entries \<noteq> []"
  proof
    assume "filenames_of entries = []"
    with assms(1) have "requested = []" by simp
    with req show False by simp
  qed
  have run: "run_vectorize_job env settings entries st
      = (case index_section env settings requested st1 of
           None \<Rightarrow> None
         | Some (Inl e, st2) \<Rightarrow>
             Some (None, fail_all (job_map entries) (map fst requested) st2)
         | Some (Inr doc_chunk_map, st2) \<Rightarrow>
             Some (None, complete_all (job_map entries) doc_chunk_map st2))"
    using files req assms(1) by (simp add: run_vectorize_job_def Let_def)
  have completed: "\<exists>st'. run_vectorize_job env settings entries st = Some (None, st')
              \<and> (\<forall>r \<in> set (index st'). dc_source (fst r) \<noteq> doc_name d)
              \<and> final_status st' name
                  = Some (Completed (job_map entries name) 0 (Some (asc ''no_chunks'')))"
    if ok: "index_section env settings requested st1 = Some (Inr doc_chunk_map, st2)
          \<and> load_documents (job_libs env) (map snd requested) (chunk_size settings)
              (chunk_overlap settings) (chunk_overlap_ratio settings) = Some (Inr chunks)
          \<and> doc_name d = name \<and> (\<forall>c \<in> set chunks. dc_source c \<noteq> doc_name d)"
  proof -
    note sec = conjunct1[OF ok]
    note load = conjunct1[OF conjunct2[OF ok]]
    note stored = conjunct1[OF conjunct2[OF conjunct2[OF ok]]]
    note none0 = conjunct2[OF conjunct2[OF conjunct2[OF ok]]]
    from none0 stored have none: "\<forall>c \<in> set chunks. dc_source c \<noteq> name"
      by simp
    from index_section_chunk_map[OF sec load] doc_chunk_map_of_no_chunk[OF assms(2) none]
    have mem: "(name, []) \<in> set doc_chunk_map" by simp
    from sec have r: "run_vectorize_job env settings entries st
        = Some (None, complete_all (job_map entries) doc_chunk_map st2)"
      unfolding run by simp
    from index_section_result(2)[OF sec mem name]
    have "\<forall>r \<in> set (index (complete_all (job_map entries) doc_chunk_map st2)).
          dc_source (fst r) \<noteq> doc_name d"
      by (simp add: complete_all_index stored)
    moreover from keys(1) index_section_result(1)[OF sec]
    have "distinct (map fst doc_chunk_map)" by simp
    then have "final_status (complete_all (job_map entries) doc_chunk_map st2) name
               = Some (Completed (job_map entries name) 0 (Some (asc ''no_chunks'')))"
      using mem by (rule final_status_completed)
    ultimately show ?thesis using r by blast
  qed
  have failed: "\<exists>st'. run_vectorize_job env settings entries st = Some (None, st')
              \<and> index st' = index st2
              \<and> final_status st' name = Some (Failed (job_map entries name) REASON_INDEX_FAILED)"
    if sec: "index_section env settings requested st1 = Some (Inl e, st2)"
  proof -
    from sec have "run_vectorize_job env settings entries st
        = Some (None, fail_all (job_map entries) (map fst requested) st2)"
      unfolding run by simp
    with fail_all_index[of "job_map entries" "map fst requested" st2]
      final_status_failed[OF keys(1) assms(2), of "job_map entries" st2]
    show ?thesis by blast
  qed
  have never: "run_vectorize_job env settings entries st = None
            \<longleftrightarrow> index_section env settings requested st1 = None"
    unfolding run by (auto split: option.splits sum.splits prod.splits)
  have returns: "run_vectorize_job env settings entries st \<noteq> None"
    if "0 < chunk_overlap settings \<and> chunk_overlap settings < chunk_size settings"
    using index_section_returns[OF conjunct1[OF that] conjunct2[OF that]] never by simp
  from completed failed never returns show ?thesis
    by (intro conjI impI) blast+
qed


lemma example_names: "filenames_of example_entries = [asc ''a.txt'', asc ''b.txt'']"
  by (simp add: filenames_of_def example_entries_def asc_def)

lemma names_differ: "asc ''a.txt'' \<noteq> asc ''b.txt''" "asc ''b.txt'' \<noteq> asc ''a.txt''"
  "asc ''a.txt'' \<noteq> []" "asc ''b.txt'' \<noteq> []"
  by (simp_all add: asc_def)

lemma txt_allowed: "py_lower (asc ''.txt'') \<in> set ALLOWED_DOC_EXTS"
  by (simp add: py_lower_def ALLOWED_DOC_EXTS_def asc_def)

lemma example_resolve:
  "get_document env (asc ''a.txt'') = Inr doc_a \<Longrightarrow> get_document env (asc ''b.txt'') = Inr doc_b \<Longrightarrow>
   resolve_docs env jm [asc ''a.txt'', asc ''b.txt''] [] st = (Inr example_requested, st)"
  using txt_allowed
  by (simp add: doc_a_def doc_b_def example_requested_def names_differ Let_def)

lemma example_chunks:
  "load_documents example_libs (map snd example_requested) (chunk_size example_settings)
     (chunk_overlap example_settings) (chunk_overlap_ratio example_settings)
     = Some (Inr [chunk_a])"
  by (simp add: load_documents_def effective_overlap_def doc_chunks_def effective_ext_def
        example_libs_def example_requested_def doc_a_def doc_b_def chunk_a_def
        example_settings_def ALLOWED_DOC_EXTS_def extract_text_from_bytes_def py_or_def
        py_lower_def py_strip_def is_space_def asc_def chunk_text_def chunk_loop.simps
        py_slice_def slice_bound_def Let_def)

lemma example_grouped:
  "doc_chunk_map_of example_requested [chunk_a]
     = [(asc ''a.txt'', [chunk_a]), (asc ''b.txt'', [])]"
  by (simp add: doc_chunk_map_of_def example_requested_def chunk_a_def make_chunk_def
        names_differ)

lemma chunk_a_fields: "dc_source chunk_a = asc ''a.txt''" "dc_id chunk_a \<noteq> asc ''b-0''"
  by (simp_all add: chunk_a_def make_chunk_def asc_def)

lemma example_write_good:
  "write_index good_env example_map (index stale_state) = Inr [(chunk_a, [1])]"
  by (simp add: write_index_def example_map_def upsert_documents_def delete_documents_def
        good_env_def stale_state_def stale_row_def chunk_a_fields names_differ Let_def)

lemma example_write_fail:
  "write_index failing_env example_map (index stale_state) = Inl (Exception (asc ''backend down''))"
  by (simp add: write_index_def example_map_def upsert_documents_def failing_env_def
        good_env_def names_differ Let_def)

lemma example_section_good:
  "index_section good_env example_settings example_requested stale_state
     = Some (Inr example_map, indexed_state)"
proof -
  have libs: "job_libs good_env = example_libs"
    by (simp add: good_env_def)
  have refs: "update_all_refs good_env example_map (stale_state\<lparr>index := [(chunk_a, [1])]\<rparr>)
      = (None, indexed_state)"
    by (simp add: example_map_def good_env_def indexed_state_def stale_state_def)
  show ?thesis
    unfolding index_section_def libs example_chunks
    by (simp add: example_grouped example_map_def[symmetric] example_write_good refs)
qed

lemma example_section_fail:
  "index_section failing_env example_settings example_requested stale_state
     = Some (Inl (Exception (asc ''backend down'')), stale_state)"
proof -
  have libs: "job_libs failing_env = example_libs"
    by (simp add: failing_env_def good_env_def)
  show ?thesis
    unfolding index_section_def libs example_chunks
    by (simp add: example_grouped example_map_def[symmetric] example_write_fail)
qed

lemma example_job_ids:
  "job_map example_entries (asc ''b.txt'') = Some (asc ''j2'')"
  by (simp add: job_map_def example_entries_def names_differ)

text \<open>
  The example batch: with the working backend \<open>b.txt\<close>, which gives no chunk, loses its
  old row and is reported completed with the note \<open>no_chunks\<close>; with the backend that
  raises it is reported failed; and with a fixed overlap of 80 the job returns.
\<close>

theorem zero_chunk_document_completed_witness:
  "resolve_docs good_env (job_map example_entries) (filenames_of example_entries) [] stale_state
     = (Inr example_requested, stale_state)
   \<and> (asc ''b.txt'', doc_b) \<in> set example_requested
   \<and> index_section good_env example_settings example_requested stale_state
       = Some (Inr example_map, indexed_state)
   \<and> load_documents (job_libs good_env) (map snd example_requested)
        (chunk_size example_settings) (chunk_overlap example_settings)
        (chunk_overlap_ratio example_settings) = Some (Inr [chunk_a])
   \<and> doc_name doc_b = asc ''b.txt''
   \<and> list_all (\<lambda>c. dc_source c \<noteq> doc_name doc_b) [chunk_a]
   \<and> (\<exists>st'. run_vectorize_job good_env example_settings example_entries stale_state
               = Some (None, st')
           \<and> (\<forall>r \<in> set (index st'). dc_source (fst r) \<noteq> doc_name doc_b)
           \<and> final_status st' (asc ''b.txt'')
               = Some (Completed (Some (asc ''j2'')) 0 (Some (asc ''no_chunks''))))
   \<and> resolve_docs failing_env (job_map example_entries) (filenames_of example_entries) []
        stale_state = (Inr example_requested, stale_state)
   \<and> index_section failing_env example_settings example_requested stale_state
       = Some (Inl (Exception (asc ''backend down'')), stale_state)
   \<and> (\<exists>st'. run_vectorize_job failing_env example_settings example_entries stale_state
               = Some (None, st')
           \<and> index st' = index stale_state
           \<and> final_status st' (asc ''b.txt'')
               = Some (Failed (Some (asc ''j2'')) REASON_INDEX_FAILED))
   \<and> 0 < chunk_overlap fixed_settings
   \<and> chunk_overlap fixed_settings < chunk_size fixed_settings
   \<and> run_vectorize_job good_env fixed_settings example_entries stale_state \<noteq> None"
proof -
  have res: "resolve_docs good_env (job_map example_entries) (filenames_of example_entries) []
      stale_state = (Inr example_requested, stale_state)"
    unfolding example_names by (rule example_resolve) (simp_all add: good_env_def names_differ)
  have res_f: "resolve_docs failing_env (job_map example_entries) (filenames_of example_entries)
      [] stale_state = (Inr example_requested, stale_state)"
    unfolding example_names
    by (rule example_resolve) (simp_all add: failing_env_def good_env_def names_differ)
  have mem: "(asc ''b.txt'', doc_b) \<in> set example_requested"
    by (simp add: example_requested_def)
  have load: "load_documents (job_libs good_env) (map snd example_requested)
        (chunk_size example_settings) (chunk_overlap example_settings)
        (chunk_overlap_ratio example_settings) = Some (Inr [chunk_a])"
    using example_chunks by (simp add: good_env_def)
  have stored: "doc_name doc_b = asc ''b.txt''"
    by (simp add: doc_b_def)
  have none: "\<forall>c \<in> set [chunk_a]. dc_source c \<noteq> doc_name doc_b"
    by (simp add: chunk_a_fields stored names_differ)
  have small: "0 < chunk_overlap fixed_settings
      \<and> chunk_overlap fixed_settings < chunk_size fixed_settings"
    by (simp add: fixed_settings_def example_settings_def)
  note fixed = zero_chunk_document_completed[OF res mem, where settings = fixed_settings]
  note good = zero_chunk_document_completed[OF res mem, where settings = example_settings
      and doc_chunk_map = example_map and ?st2.0 = indexed_state and chunks = "[chunk_a]"]
  note bad = zero_chunk_document_completed[OF res_f mem, where settings = example_settings
      and e = "Exception (asc ''backend down'')" and ?st2.0 = stale_state]
  have hyp: "index_section good_env example_settings example_requested stale_state
        = Some (Inr example_map, indexed_state)
      \<and> load_documents (job_libs good_env) (map snd example_requested)
          (chunk_size example_settings) (chunk_overlap example_settings)
          (chunk_overlap_ratio example_settings) = Some (Inr [chunk_a])
      \<and> doc_name doc_b = asc ''b.txt''
      \<and> (\<forall>c \<in> set [chunk_a]. dc_source c \<noteq> doc_name doc_b)"
    using example_section_good load stored none by (intro conjI)
  note compl = mp[OF conjunct1[OF good] hyp]
  note returns = mp[OF conjunct2[OF conjunct2[OF conjunct2[OF fixed]]] small]
  note failed = mp[OF conjunct1[OF conjunct2[OF bad]] example_section_fail]
  have l: "list_all (\<lambda>c. dc_source c \<noteq> doc_name doc_b) [chunk_a]"
    using none by simp
  from res mem example_section_good load stored l compl[unfolded example_job_ids] res_f
    example_section_fail failed[unfolded example_job_ids] conjunct1[OF small]
    conjunct2[OF small] returns
  show ?thesis
    by (intro conjI)
qed

text \<open>
  C2 as stated fails: in the same batch, with an embedding backend that raises while
  \<open>a.txt\<close> is upserted, the \<open>except\<close> branch reports every requested document failed. The
  document \<open>b.txt\<close>, which gave no chunk, ends as failed, and its row is still in the table.
\<close>

theorem zero_chunk_document_failed:
  "load_documents example_libs [doc_a, doc_b] (chunk_size example_settings)
     (chunk_overlap example_settings) (chunk_overlap_ratio example_settings)
     = Some (Inr [chunk_a])
   \<and> dc_source chunk_a = asc ''a.txt''
   \<and> map_option (\<lambda>(e, s). (e, index s, final_status s (asc ''b.txt'')))
        (run_vectorize_job failing_env example_settings example_entries stale_state)
       = Some (None, [stale_row], Some (Failed (Some (asc ''j2'')) REASON_INDEX_FAILED))"
proof -
  have res: "resolve_docs failing_env (job_map example_entries) (filenames_of example_entries) []
      stale_state = (Inr example_requested, stale_state)"
    unfolding example_names
    by (rule example_resolve) (simp_all add: failing_env_def good_env_def names_differ)
  have run: "run_vectorize_job failing_env example_settings example_entries stale_state
      = Some (None, fail_all (job_map example_entries) (map fst example_requested) stale_state)"
  proof -
    have ne: "example_requested \<noteq> []" "filenames_of example_entries \<noteq> []"
      by (simp_all add: example_requested_def example_names)
    show ?thesis
      unfolding run_vectorize_job_def Let_def res
      by (simp add: ne example_section_fail)
  qed
  have jid: "job_map example_entries (asc ''b.txt'') = Some (asc ''j2'')"
    by (simp add: job_map_def example_entries_def names_differ)
  have final: "final_status
        (fail_all (job_map example_entries) (map fst example_requested) stale_state)
        (asc ''b.txt'') = Some (Failed (Some (asc ''j2'')) REASON_INDEX_FAILED)"
    by (simp add: example_requested_def fail_def report_status_def stale_state_def
          final_status_def names_differ jid)
  have idx: "index (fail_all (job_map example_entries) (map fst example_requested) stale_state)
      = [stale_row]"
    by (simp add: example_requested_def fail_def report_status_def stale_state_def)
  have chunks: "load_documents example_libs [doc_a, doc_b] (chunk_size example_settings)
     (chunk_overlap example_settings) (chunk_overlap_ratio example_settings) = Some (Inr [chunk_a])"
    using example_chunks by (simp add: example_requested_def)
  from chunks chunk_a_fields(1) run final idx show ?thesis
    by simp
qed

text \<open>
  Why the document has to be requested under its stored name: asked for with a
  leading blank in the name, the blank document \<open>b.txt\<close> is reported completed with the note \<open>no_chunks\<close>, but the
  rows deleted are those of the name with the blank, and the old row of \<open>b.txt\<close> stays.
\<close>

lemma spaced_request_keeps_rows:
  "map_option (\<lambda>(e, s). (e, index s, final_status s (32 # asc ''b.txt'')))
     (run_vectorize_job spaced_env example_settings spaced_entries stale_state)
     = Some (None, [stale_row],
             Some (Completed (Some (asc ''j2'')) 0 (Some (asc ''no_chunks''))))"
proof -
  have names: "filenames_of spaced_entries = [32 # asc ''b.txt'']"
    by (simp add: filenames_of_def spaced_entries_def)
  have res: "resolve_docs spaced_env (job_map spaced_entries) [32 # asc ''b.txt''] []
      stale_state = (Inr [(32 # asc ''b.txt'', doc_b)], stale_state)"
    using txt_allowed by (simp add: spaced_env_def good_env_def doc_b_def Let_def)
  have load: "load_documents example_libs [doc_b] (chunk_size example_settings)
     (chunk_overlap example_settings) (chunk_overlap_ratio example_settings) = Some (Inr [])"
    by (simp add: load_documents_def doc_chunks_def effective_ext_def example_libs_def doc_b_def
        ALLOWED_DOC_EXTS_def extract_text_from_bytes_def py_or_def py_lower_def py_strip_def
        is_space_def asc_def Let_def)
  have libs: "job_libs spaced_env = example_libs"
    by (simp add: spaced_env_def good_env_def)
  have sec: "index_section spaced_env example_settings [(32 # asc ''b.txt'', doc_b)] stale_state
      = Some (Inr [(32 # asc ''b.txt'', [])],
              stale_state\<lparr>vector_refs := [32 # asc ''b.txt'' \<mapsto> []]\<rparr>)"
    unfolding index_section_def libs
    by (simp add: load doc_chunk_map_of_def write_index_def delete_documents_def
          stale_state_def stale_row_def spaced_env_def good_env_def asc_def Let_def)
  have run: "run_vectorize_job spaced_env example_settings spaced_entries stale_state
      = Some (None, complete_all (job_map spaced_entries) [(32 # asc ''b.txt'', [])]
                (stale_state\<lparr>vector_refs := [32 # asc ''b.txt'' \<mapsto> []]\<rparr>))"
    unfolding run_vectorize_job_def Let_def names res
    by (simp add: sec)
  have jid: "job_map spaced_entries (32 # asc ''b.txt'') = Some (asc ''j2'')"
    by (simp add: job_map_def spaced_entries_def)
  show ?thesis
    unfolding run
    by (simp add: complete_def report_status_def final_status_def stale_state_def jid)
qed

end
